theory Spec2Isabelle
  imports Main
begin

section \<open>Data model\<close>

text \<open>
  Identifiers are the strings the controllers compare with \<open>===\<close> and \<open>includes\<close>
  (\<open>user.id\<close>, \<open>channel.serverId\<close>, \<open>server.creatorId\<close>). The persisted entities are
  the documents the controllers read fields of.
\<close>

type_synonym ident = string

record user =
  u_id :: ident
  u_username :: string
  u_bio :: string
  u_theme :: string
  u_friends :: "ident list"
  u_friendRequests :: "ident list"
  u_servers :: "ident list"

record serverUser =
  su_id :: ident
  su_permissionLevel :: int

record server =
  s_id :: ident
  s_name :: string
  s_creatorId :: ident
  s_users :: "serverUser list"
  s_channels :: "ident list"

record channel =
  c_id :: ident
  c_serverId :: ident
  c_name :: string
  c_description :: string
  c_permissionLevel :: int
  c_messages :: "ident list"

record message =
  m_id :: ident
  m_userId :: ident
  m_message :: string

record privateMessage =
  pm_userA :: ident
  pm_userB :: ident

text \<open>The document store: one collection per entity.\<close>

record db =
  db_users :: "user list"
  db_servers :: "server list"
  db_channels :: "channel list"
  db_messages :: "message list"
  db_privateMessages :: "privateMessage list"

text \<open>\<open>req.session.user\<close>: absent for an anonymous caller, otherwise the object the login
  and signup handlers store.\<close>

record sessionUser =
  sess_id :: ident
  sess_username :: string
  sess_bio :: string
  sess_theme :: string

type_synonym session = "sessionUser option"

text \<open>
  What a \<open>try\<close> block can catch: a \<open>BaseError\<close> of the repository (with its
  \<open>statusCode\<close> and \<open>message\<close>; \<open>InternalServerError\<close> is one of them), or any other
  thrown value (a \<open>TypeError\<close> for instance).
\<close>

datatype error = BaseError nat string | OtherError

record messageView =
  mv_id :: ident
  mv_userId :: ident
  mv_username :: string
  mv_message :: string

datatype payload =
    ErrorPayload nat string
  | ChannelMainPayload ident string string "messageView list" bool

datatype body = NoBody | ErrorBody string

datatype response =
    Render nat string payload
  | Json nat body
  | Redirect nat string

section \<open>The service layer, as a parameter\<close>

text \<open>
  The controllers delegate every read and write to \<open>UserService\<close>, \<open>ServerService\<close>,
  \<open>ChannelService\<close>, \<open>MessageService\<close>, \<open>PrivateMessageService\<close> and the validators. A
  call either throws (\<open>Inl\<close>) or returns; a write returns the store it leaves.
\<close>

record services =
  validateMongooseId :: "string \<Rightarrow> string \<Rightarrow> error + ident"
  ChannelService_getChannelById :: "db \<Rightarrow> ident \<Rightarrow> error + channel"
  ChannelService_deleteServerChannels :: "db \<Rightarrow> server \<Rightarrow> error + db"
  ServerService_getServerById :: "db \<Rightarrow> ident \<Rightarrow> error + server"
  ServerService_getJoinedServers :: "db \<Rightarrow> ident \<Rightarrow> error + server list"
  ServerService_deleteServer :: "db \<Rightarrow> server \<Rightarrow> user \<Rightarrow> error + db"
  ServerService_removeUser :: "db \<Rightarrow> server \<Rightarrow> user \<Rightarrow> error + db"
  MessageService_getMessageById :: "db \<Rightarrow> ident \<Rightarrow> error + message"
  UserService_getUserById :: "db \<Rightarrow> ident \<Rightarrow> error + user"
  UserService_getAssociatedUsers :: "db \<Rightarrow> ident \<Rightarrow> error + user list"
  UserService_removeUserAssociations :: "db \<Rightarrow> user \<Rightarrow> user \<Rightarrow> error + db"
  UserService_deleteUser :: "db \<Rightarrow> ident \<Rightarrow> error + db"
  UserService_removeFriend :: "db \<Rightarrow> user \<Rightarrow> user \<Rightarrow> error + db"
  PrivateMessageService_deletePrivateMessage :: "db \<Rightarrow> user \<Rightarrow> user \<Rightarrow> error + db"
  PrivateMessageService_deleteUserPrivateMessages :: "db \<Rightarrow> user \<Rightarrow> error + db"

section \<open>ChannelController.renderChannelMainPage\<close>

text \<open>The \<open>catch\<close> block of the page controllers: both branches of the
  \<open>InternalServerError\<close> test render the same page.\<close>

definition catchRender :: "error \<Rightarrow> response" where
  "catchRender e =
     (case e of
        BaseError statusCode msg \<Rightarrow> Render statusCode ''error'' (ErrorPayload statusCode msg)
      | OtherError \<Rightarrow> Render 500 ''error'' (ErrorPayload 500 ''Code went boom.''))"

definition insufficientPermissions :: response where
  "insufficientPermissions = Render 403 ''error'' (ErrorPayload 403 ''Insufficient permissions.'')"

text \<open>\<open>res.render("channel/main", ...)\<close>: the status is Express's default 200; the
  stylesheet and script entries are constants and left out of the payload.\<close>

definition channelMainPage :: "channel \<Rightarrow> messageView list \<Rightarrow> response" where
  "channelMainPage channel messages =
     Render 200 ''channel/main''
       (ChannelMainPayload (c_serverId channel) (c_name channel) (c_description channel) messages True)"

text \<open>The callback of \<open>channel.messages.map\<close>: the message, then its author.\<close>

definition loadMessage :: "services \<Rightarrow> db \<Rightarrow> ident \<Rightarrow> error + messageView" where
  "loadMessage svc d messageId =
     (case MessageService_getMessageById svc d messageId of
        Inl e \<Rightarrow> Inl e
      | Inr message \<Rightarrow>
          (case UserService_getUserById svc d (m_userId message) of
             Inl e \<Rightarrow> Inl e
           | Inr author \<Rightarrow>
               Inr \<lparr>mv_id = m_id message, mv_userId = u_id author,
                    mv_username = u_username author, mv_message = m_message message\<rparr>))"

text \<open>\<open>await Promise.all(xs.map(f))\<close>: every result, or a rejection. \<open>Promise.all\<close> rejects
  with the rejection that comes first in time; here the lookups are taken in list order,
  so the rejection reported is the one of the first failing element. The two differ only
  when two or more lookups fail, and then only in which of the errors is rendered.\<close>

fun promiseAll :: "('a \<Rightarrow> error + 'b) \<Rightarrow> 'a list \<Rightarrow> error + 'b list" where
  "promiseAll f [] = Inr []"
| "promiseAll f (x # xs) =
     (case f x of
        Inl e \<Rightarrow> Inl e
      | Inr y \<Rightarrow> (case promiseAll f xs of Inl e \<Rightarrow> Inl e | Inr ys \<Rightarrow> Inr (y # ys)))"

text \<open>
  Lines 39 to 72 of the controller: the session test (\<open>req.session.user\<close>, then a truthy
  \<open>req.session.user.id\<close>, then membership by \<open>includes\<close>), the member's entry by \<open>find\<close>,
  and the comparison with the channel's level. Reading \<open>permissionLevel\<close> of a missing
  entry would throw a \<open>TypeError\<close>, which the \<open>catch\<close> block renders.
\<close>

definition channelAccess :: "server \<Rightarrow> channel \<Rightarrow> messageView list \<Rightarrow> session \<Rightarrow> response" where
  "channelAccess server channel messages sess =
     (let serverUsers = map su_id (s_users server) in
      case sess of
        None \<Rightarrow> insufficientPermissions
      | Some su \<Rightarrow>
          if sess_id su \<noteq> [] \<and> sess_id su \<in> set serverUsers
          then
            (let userId = sess_id su in
             case find (\<lambda>userObj. su_id userObj = userId) (s_users server) of
               None \<Rightarrow> catchRender OtherError
             | Some userObj \<Rightarrow>
                 if su_permissionLevel userObj \<ge> c_permissionLevel channel
                 then channelMainPage channel messages
                 else insufficientPermissions)
          else insufficientPermissions)"

definition renderChannelMainPage :: "services \<Rightarrow> db \<Rightarrow> session \<Rightarrow> string \<Rightarrow> response" where
  "renderChannelMainPage svc d sess channelIdParam =
     (case validateMongooseId svc channelIdParam ''channelId'' of
        Inl e \<Rightarrow> catchRender e
      | Inr channelId \<Rightarrow>
     (case ChannelService_getChannelById svc d channelId of
        Inl e \<Rightarrow> catchRender e
      | Inr channel \<Rightarrow>
     (case ServerService_getServerById svc d (c_serverId channel) of
        Inl e \<Rightarrow> catchRender e
      | Inr server \<Rightarrow>
     (case promiseAll (loadMessage svc d) (c_messages channel) of
        Inl e \<Rightarrow> catchRender e
      | Inr messages \<Rightarrow> channelAccess server channel messages sess))))"

text \<open>The caller's identity as the session test reads it: none without a session user
  or with a falsy (empty) id.\<close>

definition sessionIdentity :: "session \<Rightarrow> ident option" where
  "sessionIdentity sess =
     (case sess of
        None \<Rightarrow> None
      | Some su \<Rightarrow> if sess_id su = [] then None else Some (sess_id su))"

text \<open>
  The contract of section 4.1 of the specification, in its words: find the entry whose id
  is the acting user's; absent, deny; present, grant iff its level is at least the
  required one; an anonymous caller is denied.
\<close>

definition spec_canAccess :: "serverUser list \<Rightarrow> ident option \<Rightarrow> int \<Rightarrow> bool" where
  "spec_canAccess users caller requiredLevel =
     (case caller of
        None \<Rightarrow> False
      | Some userId \<Rightarrow>
          (case find (\<lambda>entry. su_id entry = userId) users of
             None \<Rightarrow> False
           | Some entry \<Rightarrow> su_permissionLevel entry \<ge> requiredLevel))"

section \<open>UserController.removeFriend\<close>

text \<open>The \<open>catch\<close> block of the JSON controllers.\<close>

definition catchJson :: "error \<Rightarrow> response" where
  "catchJson e =
     (case e of
        BaseError statusCode msg \<Rightarrow> Json statusCode (ErrorBody msg)
      | OtherError \<Rightarrow> Json 500 (ErrorBody ''Code went boom.''))"

text \<open>
  The handler returns its response and the store it leaves. A step that throws leaves the
  store as the steps before it made it. Reading \<open>req.session.user.id\<close> without a session
  user throws a \<open>TypeError\<close> inside the \<open>try\<close> block. The documents \<open>userA\<close> and \<open>userB\<close>
  are read once and handed to both service calls.
\<close>

definition removeFriend :: "services \<Rightarrow> db \<Rightarrow> session \<Rightarrow> string \<Rightarrow> response \<times> db" where
  "removeFriend svc d sess bodyFriendId =
     (case validateMongooseId svc bodyFriendId ''friendId'' of
        Inl e \<Rightarrow> (catchJson e, d)
      | Inr friendId \<Rightarrow>
     (case sess of
        None \<Rightarrow> (catchJson OtherError, d)
      | Some su \<Rightarrow>
     (case UserService_getUserById svc d friendId of
        Inl e \<Rightarrow> (catchJson e, d)
      | Inr userA \<Rightarrow>
     (case UserService_getUserById svc d (sess_id su) of
        Inl e \<Rightarrow> (catchJson e, d)
      | Inr userB \<Rightarrow>
     (case PrivateMessageService_deletePrivateMessage svc d userA userB of
        Inl e \<Rightarrow> (catchJson e, d)
      | Inr d1 \<Rightarrow>
     (case UserService_removeFriend svc d1 userA userB of
        Inl e \<Rightarrow> (catchJson e, d1)
      | Inr d2 \<Rightarrow> (Json 204 NoBody, d2)))))))"

section \<open>UserController.deleteUser\<close>

text \<open>
  \<open>xs.forEach(async (x) => { await ... })\<close> calls the callback on every element and
  discards the promise each call returns: the handler goes on without waiting for them,
  and a rejection inside a callback never reaches the handler's \<open>catch\<close>. A callback is
  therefore a pending task: a store transformer that reports the error it ended with,
  if any, to nobody. Nothing orders the writes of a task before the later steps of the
  handler. The handler's result holds the tasks it started and did not await, and the
  store as the handler's own steps leave it: the schedule in which the writes of the
  tasks land after the response.
\<close>

type_synonym task = "db \<Rightarrow> error option \<times> db"

definition associationCallback :: "services \<Rightarrow> user \<Rightarrow> user \<Rightarrow> task" where
  "associationCallback svc removedUser associatedUser d =
     (case UserService_removeUserAssociations svc d associatedUser removedUser of
        Inl e \<Rightarrow> (Some e, d)
      | Inr d1 \<Rightarrow> (None, d1))"

definition serverCallback :: "services \<Rightarrow> user \<Rightarrow> server \<Rightarrow> task" where
  "serverCallback svc removedUser joinedServer d =
     (if u_id removedUser = s_creatorId joinedServer
      then
        (case ServerService_deleteServer svc d joinedServer removedUser of
           Inl e \<Rightarrow> (Some e, d)
         | Inr d1 \<Rightarrow>
        (case ChannelService_deleteServerChannels svc d1 joinedServer of
           Inl e \<Rightarrow> (Some e, d1)
         | Inr d2 \<Rightarrow> (None, d2)))
      else
        (case ServerService_removeUser svc d joinedServer removedUser of
           Inl e \<Rightarrow> (Some e, d)
         | Inr d1 \<Rightarrow> (None, d1)))"

record deleteUserResult =
  du_response :: response
  du_db :: db
  du_session :: session
  du_pending :: "task list"

definition deleteUser :: "services \<Rightarrow> db \<Rightarrow> session \<Rightarrow> deleteUserResult" where
  "deleteUser svc d sess =
     (case sess of
        None \<Rightarrow> \<lparr>du_response = catchJson OtherError, du_db = d, du_session = sess, du_pending = []\<rparr>
      | Some su \<Rightarrow>
     (case UserService_getUserById svc d (sess_id su) of
        Inl e \<Rightarrow> \<lparr>du_response = catchJson e, du_db = d, du_session = sess, du_pending = []\<rparr>
      | Inr removedUser \<Rightarrow>
     (case UserService_getAssociatedUsers svc d (u_id removedUser) of
        Inl e \<Rightarrow> \<lparr>du_response = catchJson e, du_db = d, du_session = sess, du_pending = []\<rparr>
      | Inr associatedUsers \<Rightarrow>
     (let started1 = map (associationCallback svc removedUser) associatedUsers in
      case ServerService_getJoinedServers svc d (u_id removedUser) of
        Inl e \<Rightarrow> \<lparr>du_response = catchJson e, du_db = d, du_session = sess, du_pending = started1\<rparr>
      | Inr joinedServers \<Rightarrow>
     (let started2 = started1 @ map (serverCallback svc removedUser) joinedServers in
      case PrivateMessageService_deleteUserPrivateMessages svc d removedUser of
        Inl e \<Rightarrow> \<lparr>du_response = catchJson e, du_db = d, du_session = sess, du_pending = started2\<rparr>
      | Inr d1 \<Rightarrow>
     (case UserService_deleteUser svc d1 (u_id removedUser) of
        Inl e \<Rightarrow> \<lparr>du_response = catchJson e, du_db = d1, du_session = sess, du_pending = started2\<rparr>
      | Inr d2 \<Rightarrow>
          \<lparr>du_response = Json 204 NoBody, du_db = d2, du_session = None, du_pending = started2\<rparr>))))))"

text \<open>The pending tasks run to their end, in the order they were started; the error of
  a task that fails is kept here only to be counted: no handler sees it.\<close>

fun settle :: "task list \<Rightarrow> db \<Rightarrow> error list \<times> db" where
  "settle [] d = ([], d)"
| "settle (t # ts) d =
     (case t d of
        (None, d1) \<Rightarrow> settle ts d1
      | (Some e, d1) \<Rightarrow> (case settle ts d1 of (es, d2) \<Rightarrow> (e # es, d2)))"

section \<open>createServer\<close>

text \<open>
  The handler's collaborators: the two validators (the message of the error a validator
  throws, if it throws), \<open>new mongoose.Types.ObjectId()\<close>, and the \<open>create\<close> of the
  \<open>Channel\<close> and \<open>Server\<close> models, which rejects (\<open>Inl\<close>), or resolves to a document or to
  a falsy value, and leaves a store.
\<close>

record models =
  validateServerCreationInput :: "string \<Rightarrow> string option"
  validateUniqueServer :: "string \<Rightarrow> string option"
  newObjectId :: "db \<Rightarrow> ident"
  Channel_create :: "db \<Rightarrow> string \<Rightarrow> ident \<Rightarrow> error + (channel option \<times> db)"
  Server_create :: "db \<Rightarrow> server \<Rightarrow> error + (server option \<times> db)"

text \<open>
  The handler has no \<open>try\<close> around the two \<open>create\<close> calls nor around
  \<open>req.session.user.id\<close>: a rejection or a \<open>TypeError\<close> there ends the handler without a
  response (\<open>None\<close>). On success the handler runs \<open>res.status(201).redirect(url)\<close>:
  \<open>res.redirect\<close> with one argument sets the status itself, to 302, over the 201 set
  just before, so the answer is the redirect with status 302.
\<close>

definition createServer :: "models \<Rightarrow> db \<Rightarrow> session \<Rightarrow> string \<Rightarrow> response option \<times> db" where
  "createServer m d sess name =
     (case validateServerCreationInput m name of
        Some msg \<Rightarrow> (Some (Json 400 (ErrorBody msg)), d)
      | None \<Rightarrow>
     (case validateUniqueServer m name of
        Some msg \<Rightarrow> (Some (Json 400 (ErrorBody msg)), d)
      | None \<Rightarrow>
     (let serverId = newObjectId m d in
      case Channel_create m d ''general'' serverId of
        Inl e \<Rightarrow> (None, d)
      | Inr (None, d1) \<Rightarrow> (Some (Json 500 (ErrorBody ''Unable to create general channel.'')), d1)
      | Inr (Some channel, d1) \<Rightarrow>
     (case sess of
        None \<Rightarrow> (None, d1)
      | Some su \<Rightarrow>
     (case Server_create m d1
             \<lparr>s_id = serverId, s_name = name, s_creatorId = sess_id su,
              s_users = [\<lparr>su_id = sess_id su, su_permissionLevel = 9\<rparr>],
              s_channels = [c_id channel]\<rparr> of
        Inl e \<Rightarrow> (None, d1)
      | Inr (None, d2) \<Rightarrow> (Some (Json 500 (ErrorBody ''Unable to create server.'')), d2)
      | Inr (Some server, d2) \<Rightarrow> (Some (Redirect 302 (''/server/'' @ s_id server)), d2))))))"

section \<open>Reading the store\<close>

definition findUser :: "db \<Rightarrow> ident \<Rightarrow> user option" where
  "findUser d i = find (\<lambda>u. u_id u = i) (db_users d)"

definition findServer :: "db \<Rightarrow> ident \<Rightarrow> server option" where
  "findServer d i = find (\<lambda>s. s_id s = i) (db_servers d)"

definition findChannel :: "db \<Rightarrow> ident \<Rightarrow> channel option" where
  "findChannel d i = find (\<lambda>c. c_id c = i) (db_channels d)"

definition findMessage :: "db \<Rightarrow> ident \<Rightarrow> message option" where
  "findMessage d i = find (\<lambda>m. m_id m = i) (db_messages d)"

definition hasFriend :: "db \<Rightarrow> ident \<Rightarrow> ident \<Rightarrow> bool" where
  "hasFriend d a b = (case findUser d a of None \<Rightarrow> False | Some u \<Rightarrow> b \<in> set (u_friends u))"

definition updateUser :: "db \<Rightarrow> ident \<Rightarrow> (user \<Rightarrow> user) \<Rightarrow> db" where
  "updateUser d i f = d\<lparr>db_users := map (\<lambda>u. if u_id u = i then f u else u) (db_users d)\<rparr>"

text \<open>The relationship states of section 4.2: \<open>hasFriend d a b\<close> says that \<open>b\<close> is in the
  \<open>friends\<close> of \<open>a\<close>; a pending marker from \<open>requester\<close> to \<open>target\<close> is the requester's id
  in the target's \<open>friendRequests\<close>; two users are friends when each is in the other's
  \<open>friends\<close>; a conversation belongs to the unordered pair.\<close>

definition pendingTo :: "db \<Rightarrow> ident \<Rightarrow> ident \<Rightarrow> bool" where
  "pendingTo d requester target =
     (case findUser d target of None \<Rightarrow> False | Some u \<Rightarrow> requester \<in> set (u_friendRequests u))"

definition areFriends :: "db \<Rightarrow> ident \<Rightarrow> ident \<Rightarrow> bool" where
  "areFriends d a b = (hasFriend d a b \<and> hasFriend d b a)"

definition isPENDING :: "db \<Rightarrow> ident \<Rightarrow> ident \<Rightarrow> bool" where
  "isPENDING d a b = (pendingTo d a b \<or> pendingTo d b a)"

definition isNONE :: "db \<Rightarrow> ident \<Rightarrow> ident \<Rightarrow> bool" where
  "isNONE d a b = (\<not> isPENDING d a b \<and> \<not> areFriends d a b)"

definition isPair :: "privateMessage \<Rightarrow> ident \<Rightarrow> ident \<Rightarrow> bool" where
  "isPair pm a b = ((pm_userA pm = a \<and> pm_userB pm = b) \<or> (pm_userA pm = b \<and> pm_userB pm = a))"

definition conversationsOf :: "db \<Rightarrow> ident \<Rightarrow> ident \<Rightarrow> privateMessage list" where
  "conversationsOf d a b = filter (\<lambda>pm. isPair pm a b) (db_privateMessages d)"

section \<open>The service layer as the specification describes it\<close>

text \<open>Modelled from the spec: \<open>UserService.removeFriend\<close> is not under src/. Section 4.2: it
  removes each user from the other's \<open>friends\<close>.\<close>

definition spec_removeFriend :: "db \<Rightarrow> ident \<Rightarrow> ident \<Rightarrow> db" where
  "spec_removeFriend d userA userB =
     updateUser
       (updateUser d userA (\<lambda>u. u\<lparr>u_friends := removeAll userB (u_friends u)\<rparr>))
       userB
       (\<lambda>u. u\<lparr>u_friends := removeAll userA (u_friends u)\<rparr>)"

text \<open>Modelled from the spec: \<open>PrivateMessageService.deletePrivateMessage\<close> is not under
  src/. Section 4.2: it deletes the conversation of the pair.\<close>

definition spec_deletePrivateMessage :: "db \<Rightarrow> ident \<Rightarrow> ident \<Rightarrow> db" where
  "spec_deletePrivateMessage d userA userB =
     d\<lparr>db_privateMessages := filter (\<lambda>pm. \<not> isPair pm userA userB) (db_privateMessages d)\<rparr>"

text \<open>Modelled from the spec: \<open>UserService.getAssociatedUsers\<close> and
  \<open>UserService.removeUserAssociations\<close> are not under src/. Section 4.3, step 1: the users
  associated by friendship or pending request; the association is removed on both sides
  and the matching private conversation deleted.\<close>

definition spec_getAssociatedUsers :: "db \<Rightarrow> ident \<Rightarrow> user list" where
  "spec_getAssociatedUsers d userId =
     filter (\<lambda>u. userId \<in> set (u_friends u) \<or> userId \<in> set (u_friendRequests u)
                 \<or> hasFriend d userId (u_id u) \<or> pendingTo d (u_id u) userId)
       (db_users d)"

definition spec_removeUserAssociations :: "db \<Rightarrow> ident \<Rightarrow> ident \<Rightarrow> db" where
  "spec_removeUserAssociations d associated removed =
     spec_deletePrivateMessage
       (updateUser
          (updateUser d associated
             (\<lambda>u. u\<lparr>u_friends := removeAll removed (u_friends u),
                    u_friendRequests := removeAll removed (u_friendRequests u)\<rparr>))
          removed
          (\<lambda>u. u\<lparr>u_friends := removeAll associated (u_friends u),
                 u_friendRequests := removeAll associated (u_friendRequests u)\<rparr>))
       associated removed"

text \<open>Modelled from the spec: \<open>ServerService.getJoinedServers\<close>, \<open>ServerService.deleteServer\<close>,
  \<open>ChannelService.deleteServerChannels\<close> and \<open>ServerService.removeUser\<close> are not under src/.
  Section 4.3, step 2: the servers the user belongs to; deleting a server removes it,
  deleting its channels removes them and their messages; removing a user removes only
  that user's membership entry.\<close>

definition spec_getJoinedServers :: "db \<Rightarrow> ident \<Rightarrow> server list" where
  "spec_getJoinedServers d userId =
     filter (\<lambda>s. userId \<in> set (map su_id (s_users s))) (db_servers d)"

definition spec_deleteServer :: "db \<Rightarrow> server \<Rightarrow> db" where
  "spec_deleteServer d server =
     d\<lparr>db_servers := filter (\<lambda>s. s_id s \<noteq> s_id server) (db_servers d)\<rparr>"

definition spec_deleteServerChannels :: "db \<Rightarrow> server \<Rightarrow> db" where
  "spec_deleteServerChannels d server =
     d\<lparr>db_channels := filter (\<lambda>c. c_id c \<notin> set (s_channels server)) (db_channels d),
       db_messages :=
         filter
           (\<lambda>m. \<not> list_ex (\<lambda>c. c_id c \<in> set (s_channels server) \<and> m_id m \<in> set (c_messages c))
                    (db_channels d))
           (db_messages d)\<rparr>"

definition spec_removeUser :: "db \<Rightarrow> server \<Rightarrow> ident \<Rightarrow> db" where
  "spec_removeUser d server userId =
     d\<lparr>db_servers :=
         map (\<lambda>s. if s_id s = s_id server
                  then s\<lparr>s_users := filter (\<lambda>entry. su_id entry \<noteq> userId) (s_users s)\<rparr>
                  else s)
           (db_servers d)\<rparr>"

text \<open>What the callback of \<open>joinedServers.forEach\<close> leaves when its service calls return:
  the branch is the controller's, the writes are the ones above.\<close>

definition spec_serverCallback :: "ident \<Rightarrow> db \<Rightarrow> server \<Rightarrow> db" where
  "spec_serverCallback userId d joinedServer =
     (if userId = s_creatorId joinedServer
      then spec_deleteServerChannels (spec_deleteServer d joinedServer) joinedServer
      else spec_removeUser d joinedServer userId)"

text \<open>Modelled from the spec: \<open>PrivateMessageService.deleteUserPrivateMessages\<close> and
  \<open>UserService.deleteUser\<close> are not under src/. Section 4.3, steps 3 and 4: all private
  conversations involving the user are deleted; the user record is deleted.\<close>

definition spec_deleteUserPrivateMessages :: "db \<Rightarrow> ident \<Rightarrow> db" where
  "spec_deleteUserPrivateMessages d userId =
     d\<lparr>db_privateMessages :=
         filter (\<lambda>pm. pm_userA pm \<noteq> userId \<and> pm_userB pm \<noteq> userId) (db_privateMessages d)\<rparr>"

definition spec_deleteUserRecord :: "db \<Rightarrow> ident \<Rightarrow> db" where
  "spec_deleteUserRecord d userId = d\<lparr>db_users := filter (\<lambda>u. u_id u \<noteq> userId) (db_users d)\<rparr>"

text \<open>
  What the theorem on \<open>removeFriend\<close> asks of a service layer: a read that returns gives
  the stored document, and a write that returns has left the store section 4.2 describes.
  A service may throw whenever it likes.
\<close>

definition friendServices :: "services \<Rightarrow> bool" where
  "friendServices svc =
     ((\<forall>d i u. UserService_getUserById svc d i = Inr u \<longrightarrow> findUser d i = Some u) \<and>
      (\<forall>d a b d'. UserService_removeFriend svc d a b = Inr d' \<longrightarrow>
          d' = spec_removeFriend d (u_id a) (u_id b)) \<and>
      (\<forall>d a b d'. PrivateMessageService_deletePrivateMessage svc d a b = Inr d' \<longrightarrow>
          d' = spec_deletePrivateMessage d (u_id a) (u_id b)))"

text \<open>
  What the theorem on the servers of a deleted user asks of a service layer: the reads
  and writes on servers and channels that return do what section 4.3 describes, and the
  writes on users and private conversations leave servers, channels and messages alone.
\<close>

definition keepsServers :: "db \<Rightarrow> db \<Rightarrow> bool" where
  "keepsServers d d' =
     (db_servers d' = db_servers d \<and> db_channels d' = db_channels d \<and> db_messages d' = db_messages d)"

definition deletionServices :: "services \<Rightarrow> bool" where
  "deletionServices svc =
     ((\<forall>d i u. UserService_getUserById svc d i = Inr u \<longrightarrow> findUser d i = Some u) \<and>
      (\<forall>d i ss. ServerService_getJoinedServers svc d i = Inr ss \<longrightarrow> ss = spec_getJoinedServers d i) \<and>
      (\<forall>d s u d'. ServerService_deleteServer svc d s u = Inr d' \<longrightarrow> d' = spec_deleteServer d s) \<and>
      (\<forall>d s d'. ChannelService_deleteServerChannels svc d s = Inr d' \<longrightarrow>
          d' = spec_deleteServerChannels d s) \<and>
      (\<forall>d s u d'. ServerService_removeUser svc d s u = Inr d' \<longrightarrow> d' = spec_removeUser d s (u_id u)) \<and>
      (\<forall>d a r d'. UserService_removeUserAssociations svc d a r = Inr d' \<longrightarrow> keepsServers d d') \<and>
      (\<forall>d u d'. PrivateMessageService_deleteUserPrivateMessages svc d u = Inr d' \<longrightarrow> keepsServers d d') \<and>
      (\<forall>d i d'. UserService_deleteUser svc d i = Inr d' \<longrightarrow> keepsServers d d'))"

text \<open>Modelled from the spec: the service layer and the validators are not under src/.
  Section 6: a read by id gives the entity or \<open>NotFound\<close> (HTTP 404, section 7); the
  validator rejects a malformed value (HTTP 400); the writes are the ones above and do
  not throw.\<close>

definition specServices :: services where
  "specServices =
     \<lparr>validateMongooseId =
        (\<lambda>v name. if v = [] then Inl (BaseError 400 (name @ '' is invalid.'')) else Inr v),
      ChannelService_getChannelById =
        (\<lambda>d i. case findChannel d i of
                  None \<Rightarrow> Inl (BaseError 404 ''Channel not found.'') | Some c \<Rightarrow> Inr c),
      ChannelService_deleteServerChannels = (\<lambda>d s. Inr (spec_deleteServerChannels d s)),
      ServerService_getServerById =
        (\<lambda>d i. case findServer d i of
                  None \<Rightarrow> Inl (BaseError 404 ''Server not found.'') | Some s \<Rightarrow> Inr s),
      ServerService_getJoinedServers = (\<lambda>d i. Inr (spec_getJoinedServers d i)),
      ServerService_deleteServer = (\<lambda>d s u. Inr (spec_deleteServer d s)),
      ServerService_removeUser = (\<lambda>d s u. Inr (spec_removeUser d s (u_id u))),
      MessageService_getMessageById =
        (\<lambda>d i. case findMessage d i of
                  None \<Rightarrow> Inl (BaseError 404 ''Message not found.'') | Some m \<Rightarrow> Inr m),
      UserService_getUserById =
        (\<lambda>d i. case findUser d i of
                  None \<Rightarrow> Inl (BaseError 404 ''User not found.'') | Some u \<Rightarrow> Inr u),
      UserService_getAssociatedUsers = (\<lambda>d i. Inr (spec_getAssociatedUsers d i)),
      UserService_removeUserAssociations =
        (\<lambda>d a r. Inr (spec_removeUserAssociations d (u_id a) (u_id r))),
      UserService_deleteUser = (\<lambda>d i. Inr (spec_deleteUserRecord d i)),
      UserService_removeFriend = (\<lambda>d a b. Inr (spec_removeFriend d (u_id a) (u_id b))),
      PrivateMessageService_deletePrivateMessage =
        (\<lambda>d a b. Inr (spec_deletePrivateMessage d (u_id a) (u_id b))),
      PrivateMessageService_deleteUserPrivateMessages =
        (\<lambda>d u. Inr (spec_deleteUserPrivateMessages d (u_id u)))\<rparr>"

text \<open>
  What the theorem on \<open>createServer\<close> asks of the two models: a \<open>create\<close> that resolves to
  a document has stored that document, the channel with the name and server it was given
  and the server as it was given; \<open>Channel.create\<close> leaves the servers alone and
  \<open>Server.create\<close> the channels; a \<open>Server.create\<close> that resolves to a falsy value has
  stored nothing. A \<open>create\<close> that rejects has stored nothing either: a rejection carries
  no store.
\<close>

definition storingModels :: "models \<Rightarrow> bool" where
  "storingModels m =
     ((\<forall>d n sid ch d1. Channel_create m d n sid = Inr (Some ch, d1) \<longrightarrow>
          ch \<in> set (db_channels d1) \<and> c_name ch = n \<and> c_serverId ch = sid
          \<and> db_servers d1 = db_servers d) \<and>
      (\<forall>d doc s d2. Server_create m d doc = Inr (Some s, d2) \<longrightarrow>
          s = doc \<and> doc \<in> set (db_servers d2) \<and> db_channels d2 = db_channels d) \<and>
      (\<forall>d doc d2. Server_create m d doc = Inr (None, d2) \<longrightarrow> d2 = d))"

datatype outcome = Resolves | ResolvesFalsy | Rejects

text \<open>Modelled from the spec: the Mongoose models \<open>Channel\<close> and \<open>Server\<close> and the two
  validators are not under src/. A \<open>create\<close> appends the document to its collection;
  \<open>serverCreate\<close> tells how \<open>Server.create\<close> ends: it resolves to the stored document, it
  resolves to a falsy value (the case the handler tests with \<open>!server\<close>), or it rejects
  and stores nothing.\<close>

definition mongooseModels :: "outcome \<Rightarrow> models" where
  "mongooseModels serverCreate =
     \<lparr>validateServerCreationInput = (\<lambda>n. if n = [] then Some ''Invalid server name.'' else None),
      validateUniqueServer = (\<lambda>n. None),
      newObjectId = (\<lambda>d. ''server'' @ replicate (length (db_servers d)) (CHR ''+'')),
      Channel_create =
        (\<lambda>d n sid.
           let ch = \<lparr>c_id = ''channel'' @ replicate (length (db_channels d)) (CHR ''+''),
                     c_serverId = sid, c_name = n, c_description = [],
                     c_permissionLevel = 0, c_messages = []\<rparr>
           in Inr (Some ch, d\<lparr>db_channels := db_channels d @ [ch]\<rparr>)),
      Server_create =
        (\<lambda>d s. case serverCreate of
                  Resolves \<Rightarrow> Inr (Some s, d\<lparr>db_servers := db_servers d @ [s]\<rparr>)
                | ResolvesFalsy \<Rightarrow> Inr (None, d)
                | Rejects \<Rightarrow> Inl OtherError)\<rparr>"

section \<open>Example stores\<close>

text \<open>Two users, Ann and Bob, as strangers and as friends with their conversation; the
  session is what \<open>loginUser\<close> stores.\<close>

definition ann :: user where
  "ann = \<lparr>u_id = ''a'', u_username = ''ann'', u_bio = [], u_theme = ''light'',
          u_friends = [], u_friendRequests = [], u_servers = []\<rparr>"

definition bob :: user where
  "bob = \<lparr>u_id = ''b'', u_username = ''bob'', u_bio = [], u_theme = ''dark'',
          u_friends = [], u_friendRequests = [], u_servers = []\<rparr>"

definition sessionOf :: "user \<Rightarrow> session" where
  "sessionOf u =
     Some \<lparr>sess_id = u_id u, sess_username = u_username u, sess_bio = u_bio u, sess_theme = u_theme u\<rparr>"

definition strangersDb :: db where
  "strangersDb =
     \<lparr>db_users = [ann, bob], db_servers = [], db_channels = [], db_messages = [],
      db_privateMessages = []\<rparr>"

definition friendsDb :: db where
  "friendsDb =
     \<lparr>db_users = [ann\<lparr>u_friends := [''b'']\<rparr>, bob\<lparr>u_friends := [''a'']\<rparr>], db_servers = [],
      db_channels = [], db_messages = [],
      db_privateMessages = [\<lparr>pm_userA = ''b'', pm_userB = ''a''\<rparr>]\<rparr>"

text \<open>Ann and Bob as friends with their conversation, while Bob's id is also in Ann's
  \<open>friendRequests\<close>.\<close>

definition requestedFriendsDb :: db where
  "requestedFriendsDb =
     \<lparr>db_users = [ann\<lparr>u_friends := [''b''], u_friendRequests := [''b'']\<rparr>,
                  bob\<lparr>u_friends := [''a'']\<rparr>],
      db_servers = [], db_channels = [], db_messages = [],
      db_privateMessages = [\<lparr>pm_userA = ''b'', pm_userB = ''a''\<rparr>]\<rparr>"

text \<open>Ann and Bob as friends in a community: Ann created the server \<open>s\<close> with the channels
  \<open>c1\<close> and \<open>c2\<close>, is a member of Bob's server \<open>t\<close> and has posted in its channel \<open>c3\<close>.\<close>

definition communityDb :: db where
  "communityDb =
     \<lparr>db_users = [ann\<lparr>u_friends := [''b''], u_servers := [''s'', ''t'']\<rparr>,
                  bob\<lparr>u_friends := [''a''], u_servers := [''t'']\<rparr>],
      db_servers =
        [\<lparr>s_id = ''s'', s_name = ''S'', s_creatorId = ''a'',
          s_users = [\<lparr>su_id = ''a'', su_permissionLevel = 9\<rparr>], s_channels = [''c1'', ''c2'']\<rparr>,
         \<lparr>s_id = ''t'', s_name = ''T'', s_creatorId = ''b'',
          s_users = [\<lparr>su_id = ''b'', su_permissionLevel = 9\<rparr>, \<lparr>su_id = ''a'', su_permissionLevel = 3\<rparr>],
          s_channels = [''c3'']\<rparr>],
      db_channels =
        [\<lparr>c_id = ''c1'', c_serverId = ''s'', c_name = ''general'', c_description = [],
          c_permissionLevel = 0, c_messages = [''m1'']\<rparr>,
         \<lparr>c_id = ''c2'', c_serverId = ''s'', c_name = ''news'', c_description = [],
          c_permissionLevel = 4, c_messages = []\<rparr>,
         \<lparr>c_id = ''c3'', c_serverId = ''t'', c_name = ''general'', c_description = [],
          c_permissionLevel = 0, c_messages = [''m3'', ''m4'']\<rparr>],
      db_messages =
        [\<lparr>m_id = ''m1'', m_userId = ''a'', m_message = ''hello''\<rparr>,
         \<lparr>m_id = ''m3'', m_userId = ''b'', m_message = ''welcome''\<rparr>,
         \<lparr>m_id = ''m4'', m_userId = ''a'', m_message = ''thanks''\<rparr>],
      db_privateMessages = [\<lparr>pm_userA = ''b'', pm_userB = ''a''\<rparr>]\<rparr>"

text \<open>The community once Ann's account is deleted and every callback has run.\<close>

definition withoutAnnDb :: db where
  "withoutAnnDb =
     \<lparr>db_users = [bob\<lparr>u_servers := [''t'']\<rparr>],
      db_servers =
        [\<lparr>s_id = ''t'', s_name = ''T'', s_creatorId = ''b'',
          s_users = [\<lparr>su_id = ''b'', su_permissionLevel = 9\<rparr>], s_channels = [''c3'']\<rparr>],
      db_channels =
        [\<lparr>c_id = ''c3'', c_serverId = ''t'', c_name = ''general'', c_description = [],
          c_permissionLevel = 0, c_messages = [''m3'', ''m4'']\<rparr>],
      db_messages =
        [\<lparr>m_id = ''m3'', m_userId = ''b'', m_message = ''welcome''\<rparr>,
         \<lparr>m_id = ''m4'', m_userId = ''a'', m_message = ''thanks''\<rparr>],
      db_privateMessages = []\<rparr>"

text \<open>A service layer whose \<open>removeUserAssociations\<close> always throws, as when the store
  cannot be reached.\<close>

definition failingAssociations :: services where
  "failingAssociations =
     specServices\<lparr>UserService_removeUserAssociations :=
       (\<lambda>d a r. Inl (BaseError 500 ''Unable to remove associations.''))\<rparr>"

text \<open>A service layer whose \<open>deleteServerChannels\<close> always throws.\<close>

definition failingChannels :: services where
  "failingChannels =
     specServices\<lparr>ChannelService_deleteServerChannels :=
       (\<lambda>d s. Inl (BaseError 500 ''Unable to delete channels.''))\<rparr>"

section \<open>Access to a channel page\<close>

lemma find_distinct_ids:
  assumes "distinct (map su_id users)" "entry \<in> set users"
  shows "find (\<lambda>x. su_id x = su_id entry) users = Some entry"
  using assms by (induction users) (auto simp: image_iff)

lemma find_member:
  "find (\<lambda>x. su_id x = U) users = Some e \<Longrightarrow> e \<in> set users \<and> su_id e = U"
  by (induction users) (auto split: if_splits)

lemma find_none_ids:
  "(find (\<lambda>x. su_id x = U) users = None) = (U \<notin> su_id ` set users)"
  by (induction users) auto

lemma find_some_ids:
  "find (\<lambda>x. su_id x = U) users = Some e \<Longrightarrow> U \<in> su_id ` set users"
  using find_none_ids[of U users] by auto

lemma channelAccess_spec:
  "channelAccess server channel messages sess =
     (if spec_canAccess (s_users server) (sessionIdentity sess) (c_permissionLevel channel)
      then channelMainPage channel messages else insufficientPermissions)"
  by (cases sess)
     (auto simp: channelAccess_def spec_canAccess_def sessionIdentity_def Let_def find_none_ids
           split: option.splits dest: find_some_ids)

lemma page_neq: "channelMainPage channel messages \<noteq> insufficientPermissions"
  by (simp add: channelMainPage_def insufficientPermissions_def)

text \<open>
  Claim C1. The access decision of \<open>renderChannelMainPage\<close> is the contract \<open>canAccess\<close> of
  section 4.1: the page is granted exactly when the caller has a session identity whose
  entry in the server's \<open>users\<close> has a level at least the channel's (inclusive). With one
  entry per member, that is: exactly when the caller has an entry whose level is at
  least the required one. A caller without an entry is denied, and so is an anonymous
  caller, whatever the membership data.
\<close>

theorem channelAccess_canAccess:
  "(channelAccess server channel messages sess =
      (if spec_canAccess (s_users server) (sessionIdentity sess) (c_permissionLevel channel)
       then channelMainPage channel messages else insufficientPermissions))
   \<and> (\<forall>U. sessionIdentity sess = Some U \<longrightarrow> distinct (map su_id (s_users server)) \<longrightarrow>
         ((channelAccess server channel messages sess = channelMainPage channel messages)
          = (\<exists>entry \<in> set (s_users server).
               su_id entry = U \<and> su_permissionLevel entry \<ge> c_permissionLevel channel)))
   \<and> (\<forall>U. sessionIdentity sess = Some U \<longrightarrow> U \<notin> set (map su_id (s_users server)) \<longrightarrow>
         channelAccess server channel messages sess = insufficientPermissions)
   \<and> (sessionIdentity sess = None \<longrightarrow>
         channelAccess server channel messages sess = insufficientPermissions)"
proof (intro conjI allI impI)
  show "channelAccess server channel messages sess =
      (if spec_canAccess (s_users server) (sessionIdentity sess) (c_permissionLevel channel)
       then channelMainPage channel messages else insufficientPermissions)"
    by (rule channelAccess_spec)
next
  fix U
  assume U: "sessionIdentity sess = Some U" and dist: "distinct (map su_id (s_users server))"
  show "(channelAccess server channel messages sess = channelMainPage channel messages)
          = (\<exists>entry \<in> set (s_users server).
               su_id entry = U \<and> su_permissionLevel entry \<ge> c_permissionLevel channel)"
  proof
    assume "channelAccess server channel messages sess = channelMainPage channel messages"
    then have "spec_canAccess (s_users server) (Some U) (c_permissionLevel channel)"
      using page_neq[of channel messages] U by (auto simp: channelAccess_spec split: if_splits)
    then show "\<exists>entry \<in> set (s_users server).
               su_id entry = U \<and> su_permissionLevel entry \<ge> c_permissionLevel channel"
      by (auto simp: spec_canAccess_def split: option.splits dest: find_member)
  next
    assume "\<exists>entry \<in> set (s_users server).
               su_id entry = U \<and> su_permissionLevel entry \<ge> c_permissionLevel channel"
    then obtain entry where e: "entry \<in> set (s_users server)" "su_id entry = U"
      "su_permissionLevel entry \<ge> c_permissionLevel channel" by blast
    have "find (\<lambda>x. su_id x = U) (s_users server) = Some entry"
      using find_distinct_ids[OF dist e(1)] e(2) by simp
    then have "spec_canAccess (s_users server) (Some U) (c_permissionLevel channel)"
      using e(3) by (simp add: spec_canAccess_def)
    then show "channelAccess server channel messages sess = channelMainPage channel messages"
      using U by (simp add: channelAccess_spec)
  qed
next
  fix U
  assume "sessionIdentity sess = Some U" "U \<notin> set (map su_id (s_users server))"
  then show "channelAccess server channel messages sess = insufficientPermissions"
    using find_none_ids[of U "s_users server"] by (simp add: channelAccess_spec spec_canAccess_def)
next
  assume "sessionIdentity sess = None"
  then show "channelAccess server channel messages sess = insufficientPermissions"
    by (simp add: channelAccess_spec spec_canAccess_def)
qed

theorem channelAccess_canAccess_witness:
  "sessionIdentity (Some \<lparr>sess_id = ''u4'', sess_username = ''dana'', sess_bio = [], sess_theme = ''light''\<rparr>) = Some ''u4''
   \<and> distinct (map su_id [\<lparr>su_id = ''u0'', su_permissionLevel = 9\<rparr>, \<lparr>su_id = ''u3'', su_permissionLevel = 3\<rparr>,
              \<lparr>su_id = ''u4'', su_permissionLevel = 4\<rparr>])
   \<and> channelAccess
        \<lparr>s_id = ''s1'', s_name = ''S'', s_creatorId = ''u0'',
         s_users = [\<lparr>su_id = ''u0'', su_permissionLevel = 9\<rparr>, \<lparr>su_id = ''u3'', su_permissionLevel = 3\<rparr>,
              \<lparr>su_id = ''u4'', su_permissionLevel = 4\<rparr>], s_channels = [''c1'']\<rparr>
        \<lparr>c_id = ''c1'', c_serverId = ''s1'', c_name = ''general'', c_description = [],
         c_permissionLevel = 4, c_messages = []\<rparr> []
        (Some \<lparr>sess_id = ''u4'', sess_username = ''dana'', sess_bio = [], sess_theme = ''light''\<rparr>)
      = channelMainPage \<lparr>c_id = ''c1'', c_serverId = ''s1'', c_name = ''general'', c_description = [],
         c_permissionLevel = 4, c_messages = []\<rparr> []
   \<and> channelAccess
        \<lparr>s_id = ''s1'', s_name = ''S'', s_creatorId = ''u0'',
         s_users = [\<lparr>su_id = ''u0'', su_permissionLevel = 9\<rparr>, \<lparr>su_id = ''u3'', su_permissionLevel = 3\<rparr>,
              \<lparr>su_id = ''u4'', su_permissionLevel = 4\<rparr>], s_channels = [''c1'']\<rparr>
        \<lparr>c_id = ''c1'', c_serverId = ''s1'', c_name = ''general'', c_description = [],
         c_permissionLevel = 4, c_messages = []\<rparr> []
        (Some \<lparr>sess_id = ''u3'', sess_username = ''cleo'', sess_bio = [], sess_theme = ''light''\<rparr>)
      = insufficientPermissions"
  using channelAccess_canAccess[of
        "\<lparr>s_id = ''s1'', s_name = ''S'', s_creatorId = ''u0'',
         s_users = [\<lparr>su_id = ''u0'', su_permissionLevel = 9\<rparr>, \<lparr>su_id = ''u3'', su_permissionLevel = 3\<rparr>,
              \<lparr>su_id = ''u4'', su_permissionLevel = 4\<rparr>], s_channels = [''c1'']\<rparr>"
        "\<lparr>c_id = ''c1'', c_serverId = ''s1'', c_name = ''general'', c_description = [],
         c_permissionLevel = 4, c_messages = []\<rparr>" "[]"
        "Some \<lparr>sess_id = ''u4'', sess_username = ''dana'', sess_bio = [], sess_theme = ''light''\<rparr>"]
      channelAccess_canAccess[of
        "\<lparr>s_id = ''s1'', s_name = ''S'', s_creatorId = ''u0'',
         s_users = [\<lparr>su_id = ''u0'', su_permissionLevel = 9\<rparr>, \<lparr>su_id = ''u3'', su_permissionLevel = 3\<rparr>,
              \<lparr>su_id = ''u4'', su_permissionLevel = 4\<rparr>], s_channels = [''c1'']\<rparr>"
        "\<lparr>c_id = ''c1'', c_serverId = ''s1'', c_name = ''general'', c_description = [],
         c_permissionLevel = 4, c_messages = []\<rparr>" "[]"
        "Some \<lparr>sess_id = ''u3'', sess_username = ''cleo'', sess_bio = [], sess_theme = ''light''\<rparr>"]
  by (simp add: sessionIdentity_def spec_canAccess_def)


section \<open>Creating a server\<close>

lemma storing_mongooseModels: "storingModels (mongooseModels b)"
  by (auto simp: storingModels_def mongooseModels_def Let_def split: outcome.splits)

text \<open>
  Claim C8, as stated: the default channel is created atomically with the server, and no
  orphan channel is left if server creation fails. The handler creates the channel first
  and has no step that removes it. When \<open>Server.create\<close> then resolves to a falsy value,
  the handler answers 500; when it rejects, the handler ends without a response. In both
  cases the \<open>general\<close> channel stays in the store, for a server that does not exist.
\<close>

theorem createServer_orphan_counterexample:
  "createServer (mongooseModels ResolvesFalsy)
        \<lparr>db_users = [], db_servers = [], db_channels = [], db_messages = [], db_privateMessages = []\<rparr>
        (Some \<lparr>sess_id = ''a'', sess_username = ''ann'', sess_bio = [], sess_theme = ''light''\<rparr>)
        ''guild''
      = (Some (Json 500 (ErrorBody ''Unable to create server.'')),
         \<lparr>db_users = [],
          db_servers = [],
          db_channels = [\<lparr>c_id = ''channel'', c_serverId = ''server'', c_name = ''general'',
                          c_description = [], c_permissionLevel = 0, c_messages = []\<rparr>],
          db_messages = [], db_privateMessages = []\<rparr>)
   \<and> createServer (mongooseModels Rejects)
        \<lparr>db_users = [], db_servers = [], db_channels = [], db_messages = [], db_privateMessages = []\<rparr>
        (Some \<lparr>sess_id = ''a'', sess_username = ''ann'', sess_bio = [], sess_theme = ''light''\<rparr>)
        ''guild''
      = (None,
         \<lparr>db_users = [],
          db_servers = [],
          db_channels = [\<lparr>c_id = ''channel'', c_serverId = ''server'', c_name = ''general'',
                          c_description = [], c_permissionLevel = 0, c_messages = []\<rparr>],
          db_messages = [], db_privateMessages = []\<rparr>)"
  by (simp add: createServer_def mongooseModels_def Let_def)

text \<open>
  Claim C8, amended: with models whose \<open>create\<close> stores the document it resolves to,
  whenever \<open>createServer\<close> answers with the redirect to the server's page, the server is
  in the store with the caller as its creator, the caller's entry as its only member at
  level 9, and exactly one channel: the stored channel named \<open>general\<close> that was created
  for it just before. So no server is stored with zero channels. And whenever the
  channel has been created and the handler does not end with the redirect, the channel
  is still in the store and no server has been stored: the handler has ended without a
  response or has answered 500.
\<close>

theorem createServer_persists:
  assumes m: "storingModels m"
    and run: "createServer m d sess name = (r, d')"
  shows "(\<forall>url. r = Some (Redirect 302 url) \<longrightarrow>
            (\<exists>su server ch. sess = Some su \<and> server \<in> set (db_servers d') \<and> s_name server = name
               \<and> s_creatorId server = sess_id su
               \<and> s_users server = [\<lparr>su_id = sess_id su, su_permissionLevel = 9\<rparr>]
               \<and> ch \<in> set (db_channels d') \<and> s_channels server = [c_id ch]
               \<and> c_name ch = ''general'' \<and> c_serverId ch = s_id server
               \<and> url = ''/server/'' @ s_id server))
       \<and> (\<forall>ch d1. validateServerCreationInput m name = None \<longrightarrow>
            validateUniqueServer m name = None \<longrightarrow>
            Channel_create m d ''general'' (newObjectId m d) = Inr (Some ch, d1) \<longrightarrow>
            (\<forall>url. r \<noteq> Some (Redirect 302 url)) \<longrightarrow>
              ch \<in> set (db_channels d') \<and> c_name ch = ''general''
              \<and> c_serverId ch = newObjectId m d \<and> db_servers d' = db_servers d
              \<and> (r = None \<or> r = Some (Json 500 (ErrorBody ''Unable to create server.''))))"
proof (rule conjI)
  show "\<forall>url. r = Some (Redirect 302 url) \<longrightarrow>
            (\<exists>su server ch. sess = Some su \<and> server \<in> set (db_servers d') \<and> s_name server = name
               \<and> s_creatorId server = sess_id su
               \<and> s_users server = [\<lparr>su_id = sess_id su, su_permissionLevel = 9\<rparr>]
               \<and> ch \<in> set (db_channels d') \<and> s_channels server = [c_id ch]
               \<and> c_name ch = ''general'' \<and> c_serverId ch = s_id server
               \<and> url = ''/server/'' @ s_id server)"
  proof (intro allI impI)
  fix url
  assume "r = Some (Redirect 302 url)"
  with run obtain ch d1 su server where
    ch: "Channel_create m d ''general'' (newObjectId m d) = Inr (Some ch, d1)"
    and su: "sess = Some su"
    and sv: "Server_create m d1
               \<lparr>s_id = newObjectId m d, s_name = name, s_creatorId = sess_id su,
                s_users = [\<lparr>su_id = sess_id su, su_permissionLevel = 9\<rparr>],
                s_channels = [c_id ch]\<rparr> = Inr (Some server, d')"
    and url: "url = ''/server/'' @ s_id server"
    by (auto simp: createServer_def Let_def split: option.splits sum.splits prod.splits)
  from m ch have c1: "ch \<in> set (db_channels d1)" "c_name ch = ''general''"
    "c_serverId ch = newObjectId m d"
    unfolding storingModels_def by blast+
  from m sv have s1: "server = \<lparr>s_id = newObjectId m d, s_name = name, s_creatorId = sess_id su,
                s_users = [\<lparr>su_id = sess_id su, su_permissionLevel = 9\<rparr>],
                s_channels = [c_id ch]\<rparr>" "server \<in> set (db_servers d')"
    "db_channels d' = db_channels d1"
    unfolding storingModels_def by blast+
  show "\<exists>su server ch. sess = Some su \<and> server \<in> set (db_servers d') \<and> s_name server = name
               \<and> s_creatorId server = sess_id su
               \<and> s_users server = [\<lparr>su_id = sess_id su, su_permissionLevel = 9\<rparr>]
               \<and> ch \<in> set (db_channels d') \<and> s_channels server = [c_id ch]
               \<and> c_name ch = ''general'' \<and> c_serverId ch = s_id server
               \<and> url = ''/server/'' @ s_id server"
    using su c1 s1 url by (intro exI[of _ su] exI[of _ server] exI[of _ ch]) simp
  qed
next
  show "\<forall>ch d1. validateServerCreationInput m name = None \<longrightarrow>
            validateUniqueServer m name = None \<longrightarrow>
            Channel_create m d ''general'' (newObjectId m d) = Inr (Some ch, d1) \<longrightarrow>
            (\<forall>url. r \<noteq> Some (Redirect 302 url)) \<longrightarrow>
              ch \<in> set (db_channels d') \<and> c_name ch = ''general''
              \<and> c_serverId ch = newObjectId m d \<and> db_servers d' = db_servers d
              \<and> (r = None \<or> r = Some (Json 500 (ErrorBody ''Unable to create server.'')))"
  proof (intro allI impI)
  fix ch d1
  assume v: "validateServerCreationInput m name = None" "validateUniqueServer m name = None"
    and ch: "Channel_create m d ''general'' (newObjectId m d) = Inr (Some ch, d1)"
    and no: "\<forall>url. r \<noteq> Some (Redirect 302 url)"
  from m ch have c1: "ch \<in> set (db_channels d1)" "c_name ch = ''general''"
    "c_serverId ch = newObjectId m d" "db_servers d1 = db_servers d"
    unfolding storingModels_def by blast+
  have falsy: "Server_create m d1 doc = Inr (None, d2) \<Longrightarrow> d2 = d1" for doc d2
    using m unfolding storingModels_def by blast
  have "d' = d1 \<and> (r = None \<or> r = Some (Json 500 (ErrorBody ''Unable to create server.'')))"
    using run v ch no
    by (auto simp: createServer_def Let_def split: option.splits sum.splits prod.splits
             dest: falsy)
  then show "ch \<in> set (db_channels d') \<and> c_name ch = ''general''
              \<and> c_serverId ch = newObjectId m d \<and> db_servers d' = db_servers d
              \<and> (r = None \<or> r = Some (Json 500 (ErrorBody ''Unable to create server.'')))"
    using c1 by simp
  qed
qed

theorem createServer_persists_witness:
  "storingModels (mongooseModels Resolves)
   \<and> createServer (mongooseModels Resolves)
        \<lparr>db_users = [], db_servers = [], db_channels = [], db_messages = [], db_privateMessages = []\<rparr>
        (Some \<lparr>sess_id = ''a'', sess_username = ''ann'', sess_bio = [], sess_theme = ''light''\<rparr>)
        ''guild''
      = (Some (Redirect 302 ''/server/server''),
         \<lparr>db_users = [],
          db_servers = [\<lparr>s_id = ''server'', s_name = ''guild'', s_creatorId = ''a'',
                         s_users = [\<lparr>su_id = ''a'', su_permissionLevel = 9\<rparr>],
                         s_channels = [''channel'']\<rparr>],
          db_channels = [\<lparr>c_id = ''channel'', c_serverId = ''server'', c_name = ''general'',
                          c_description = [], c_permissionLevel = 0, c_messages = []\<rparr>],
          db_messages = [], db_privateMessages = []\<rparr>)
   \<and> (\<exists>su server ch. Some \<lparr>sess_id = ''a'', sess_username = ''ann'', sess_bio = [], sess_theme = ''light''\<rparr> = Some su
           \<and> server \<in> set (db_servers \<lparr>db_users = [],
          db_servers = [\<lparr>s_id = ''server'', s_name = ''guild'', s_creatorId = ''a'',
                         s_users = [\<lparr>su_id = ''a'', su_permissionLevel = 9\<rparr>],
                         s_channels = [''channel'']\<rparr>],
          db_channels = [\<lparr>c_id = ''channel'', c_serverId = ''server'', c_name = ''general'',
                          c_description = [], c_permissionLevel = 0, c_messages = []\<rparr>],
          db_messages = [], db_privateMessages = []\<rparr>) \<and> s_name server = ''guild''
           \<and> s_creatorId server = sess_id su
           \<and> s_users server = [\<lparr>su_id = sess_id su, su_permissionLevel = 9\<rparr>]
           \<and> ch \<in> set (db_channels \<lparr>db_users = [],
          db_servers = [\<lparr>s_id = ''server'', s_name = ''guild'', s_creatorId = ''a'',
                         s_users = [\<lparr>su_id = ''a'', su_permissionLevel = 9\<rparr>],
                         s_channels = [''channel'']\<rparr>],
          db_channels = [\<lparr>c_id = ''channel'', c_serverId = ''server'', c_name = ''general'',
                          c_description = [], c_permissionLevel = 0, c_messages = []\<rparr>],
          db_messages = [], db_privateMessages = []\<rparr>) \<and> s_channels server = [c_id ch]
           \<and> c_name ch = ''general'' \<and> c_serverId ch = s_id server
           \<and> ''/server/server'' = ''/server/'' @ s_id server)
   \<and> storingModels (mongooseModels Rejects)
   \<and> createServer (mongooseModels Rejects)
        \<lparr>db_users = [], db_servers = [], db_channels = [], db_messages = [], db_privateMessages = []\<rparr>
        (Some \<lparr>sess_id = ''a'', sess_username = ''ann'', sess_bio = [], sess_theme = ''light''\<rparr>)
        ''guild''
      = (None,
         \<lparr>db_users = [], db_servers = [],
          db_channels = [\<lparr>c_id = ''channel'', c_serverId = ''server'', c_name = ''general'',
                          c_description = [], c_permissionLevel = 0, c_messages = []\<rparr>],
          db_messages = [], db_privateMessages = []\<rparr>)
   \<and> \<lparr>c_id = ''channel'', c_serverId = ''server'', c_name = ''general'',
        c_description = [], c_permissionLevel = 0, c_messages = []\<rparr>
       \<in> set (db_channels \<lparr>db_users = [], db_servers = [],
          db_channels = [\<lparr>c_id = ''channel'', c_serverId = ''server'', c_name = ''general'',
                          c_description = [], c_permissionLevel = 0, c_messages = []\<rparr>],
          db_messages = [], db_privateMessages = []\<rparr>)"
proof -
  have st: "storingModels (mongooseModels Resolves)" by (rule storing_mongooseModels)
  have run: "createServer (mongooseModels Resolves)
        \<lparr>db_users = [], db_servers = [], db_channels = [], db_messages = [], db_privateMessages = []\<rparr>
        (Some \<lparr>sess_id = ''a'', sess_username = ''ann'', sess_bio = [], sess_theme = ''light''\<rparr>)
        ''guild''
      = (Some (Redirect 302 ''/server/server''),
         \<lparr>db_users = [],
          db_servers = [\<lparr>s_id = ''server'', s_name = ''guild'', s_creatorId = ''a'',
                         s_users = [\<lparr>su_id = ''a'', su_permissionLevel = 9\<rparr>],
                         s_channels = [''channel'']\<rparr>],
          db_channels = [\<lparr>c_id = ''channel'', c_serverId = ''server'', c_name = ''general'',
                          c_description = [], c_permissionLevel = 0, c_messages = []\<rparr>],
          db_messages = [], db_privateMessages = []\<rparr>)"
    by (simp add: createServer_def mongooseModels_def Let_def)
  have st2: "storingModels (mongooseModels Rejects)" by (rule storing_mongooseModels)
  have run2: "createServer (mongooseModels Rejects)
        \<lparr>db_users = [], db_servers = [], db_channels = [], db_messages = [], db_privateMessages = []\<rparr>
        (Some \<lparr>sess_id = ''a'', sess_username = ''ann'', sess_bio = [], sess_theme = ''light''\<rparr>)
        ''guild''
      = (None,
         \<lparr>db_users = [], db_servers = [],
          db_channels = [\<lparr>c_id = ''channel'', c_serverId = ''server'', c_name = ''general'',
                          c_description = [], c_permissionLevel = 0, c_messages = []\<rparr>],
          db_messages = [], db_privateMessages = []\<rparr>)"
    by (simp add: createServer_def mongooseModels_def Let_def)
  have created: "Channel_create (mongooseModels Rejects)
        \<lparr>db_users = [], db_servers = [], db_channels = [], db_messages = [], db_privateMessages = []\<rparr>
        ''general''
        (newObjectId (mongooseModels Rejects)
           \<lparr>db_users = [], db_servers = [], db_channels = [], db_messages = [], db_privateMessages = []\<rparr>)
      = Inr (Some \<lparr>c_id = ''channel'', c_serverId = ''server'', c_name = ''general'',
                     c_description = [], c_permissionLevel = 0, c_messages = []\<rparr>,
             \<lparr>db_users = [], db_servers = [],
              db_channels = [\<lparr>c_id = ''channel'', c_serverId = ''server'', c_name = ''general'',
                              c_description = [], c_permissionLevel = 0, c_messages = []\<rparr>],
              db_messages = [], db_privateMessages = []\<rparr>)"
    by (simp add: mongooseModels_def Let_def)
  have valid: "validateServerCreationInput (mongooseModels Rejects) ''guild'' = None"
    "validateUniqueServer (mongooseModels Rejects) ''guild'' = None"
    by (simp_all add: mongooseModels_def)
  note stored = conjunct1[OF createServer_persists[OF st run], rule_format, OF refl]
  note kept = conjunct2[OF createServer_persists[OF st2 run2], rule_format, OF valid created]
  have orphan: "\<lparr>c_id = ''channel'', c_serverId = ''server'', c_name = ''general'',
        c_description = [], c_permissionLevel = 0, c_messages = []\<rparr>
       \<in> set (db_channels \<lparr>db_users = [], db_servers = [],
          db_channels = [\<lparr>c_id = ''channel'', c_serverId = ''server'', c_name = ''general'',
                          c_description = [], c_permissionLevel = 0, c_messages = []\<rparr>],
          db_messages = [], db_privateMessages = []\<rparr>)"
    using kept by simp
  show ?thesis
    by (intro conjI) (rule st, rule run, rule stored, rule st2, rule run2, rule orphan)
qed

section \<open>Removing a friend\<close>

text \<open>How an update of one user document shows in the reads, and what the two writes of
  \<open>removeFriend\<close> do to the pending markers, the friend lists and the conversations.\<close>

lemma find_map_update:
  assumes "\<And>u. u_id (f u) = u_id u"
  shows "find (\<lambda>u. u_id u = j) (map (\<lambda>u. if u_id u = i then f u else u) us)
         = (if j = i then map_option f (find (\<lambda>u. u_id u = i) us) else find (\<lambda>u. u_id u = j) us)"
  using assms by (induction us) auto

lemma findUser_updateUser:
  assumes "\<And>u. u_id (f u) = u_id u"
  shows "findUser (updateUser d i f) j = (if j = i then map_option f (findUser d i) else findUser d j)"
  unfolding findUser_def updateUser_def using find_map_update[of f j i "db_users d", OF assms] by simp

lemma findUser_id: "findUser d i = Some u \<Longrightarrow> u_id u = i"
  unfolding findUser_def by (auto simp: find_Some_iff)

lemma conversationsOf_updateUser [simp]: "conversationsOf (updateUser d i f) a b = conversationsOf d a b"
  by (simp add: conversationsOf_def updateUser_def)

lemma pending_removeFriend [simp]: "pendingTo (spec_removeFriend d a b) y x = pendingTo d y x"
  by (auto simp: spec_removeFriend_def pendingTo_def findUser_updateUser split: option.splits)

lemma hasFriend_removeFriend:
  "hasFriend (spec_removeFriend d a b) x y =
     (hasFriend d x y \<and> \<not> ((x = a \<and> y = b) \<or> (x = b \<and> y = a)))"
  by (auto simp: spec_removeFriend_def hasFriend_def findUser_updateUser split: option.splits)

lemma findUser_pm [simp]: "findUser (spec_deletePrivateMessage d a b) x = findUser d x"
  by (simp add: spec_deletePrivateMessage_def findUser_def)

lemma relations_pm [simp]:
  "hasFriend (spec_deletePrivateMessage d a b) x y = hasFriend d x y"
  "pendingTo (spec_deletePrivateMessage d a b) x y = pendingTo d x y"
  by (simp_all add: hasFriend_def pendingTo_def)

lemma conversationsOf_removeFriend [simp]:
  "conversationsOf (spec_removeFriend d x y) a b = conversationsOf d a b"
  by (simp add: spec_removeFriend_def)

lemma conversationsOf_delete [simp]:
  "conversationsOf (spec_deletePrivateMessage d a b) a b = []"
  by (simp add: conversationsOf_def spec_deletePrivateMessage_def)

text \<open>What a service layer that follows section 4.2 gives the handler; the service
  layer of the specification is one.\<close>

lemma friendServices_getUserById:
  "friendServices svc \<Longrightarrow> UserService_getUserById svc d i = Inr u \<Longrightarrow> findUser d i = Some u \<and> u_id u = i"
  by (auto simp: friendServices_def dest: findUser_id)

lemma friendServices_removeFriend:
  "friendServices svc \<Longrightarrow> UserService_removeFriend svc d a b = Inr d' \<Longrightarrow>
     d' = spec_removeFriend d (u_id a) (u_id b)"
  by (auto simp: friendServices_def)

lemma friendServices_delete:
  "friendServices svc \<Longrightarrow> PrivateMessageService_deletePrivateMessage svc d a b = Inr d' \<Longrightarrow>
     d' = spec_deletePrivateMessage d (u_id a) (u_id b)"
  by (auto simp: friendServices_def)

lemma friendServices_specServices: "friendServices specServices"
  unfolding friendServices_def specServices_def
  by (auto split: option.splits)

lemma catchJson_not_ok [simp]: "catchJson e \<noteq> Json c NoBody"
  by (cases e) (simp_all add: catchJson_def)

lemmas example_defs = ann_def bob_def sessionOf_def strangersDb_def friendsDb_def
  requestedFriendsDb_def communityDb_def withoutAnnDb_def

lemmas run_defs = specServices_def findUser_def updateUser_def pendingTo_def hasFriend_def
  conversationsOf_def isPair_def spec_removeFriend_def spec_deletePrivateMessage_def
  areFriends_def isPENDING_def isNONE_def

lemma run_removeFriend:
  "removeFriend specServices friendsDb (sessionOf bob) ''a'' = (Json 204 NoBody, strangersDb)"
  by (simp add: removeFriend_def example_defs run_defs)

text \<open>A step of \<open>removeFriend\<close> that throws is answered through the \<open>catch\<close> block, and
  the steps after it are not run.\<close>

lemma removeFriend_reports_deletePrivateMessage:
  assumes "validateMongooseId svc bodyFriendId ''friendId'' = Inr friendId"
    and "UserService_getUserById svc d friendId = Inr userA"
    and "UserService_getUserById svc d (sess_id su) = Inr userB"
    and "PrivateMessageService_deletePrivateMessage svc d userA userB = Inl e"
  shows "removeFriend svc d (Some su) bodyFriendId = (catchJson e, d)"
  using assms by (simp add: removeFriend_def)

lemma removeFriend_reports_removeFriend:
  assumes "validateMongooseId svc bodyFriendId ''friendId'' = Inr friendId"
    and "UserService_getUserById svc d friendId = Inr userA"
    and "UserService_getUserById svc d (sess_id su) = Inr userB"
    and "PrivateMessageService_deletePrivateMessage svc d userA userB = Inr d1"
    and "UserService_removeFriend svc d1 userA userB = Inl e"
  shows "removeFriend svc d (Some su) bodyFriendId = (catchJson e, d1)"
  using assms by (simp add: removeFriend_def)

lemma findUser_removeFriend:
  "findUser (spec_removeFriend d a b) x =
     (if x = a \<or> x = b
      then map_option (\<lambda>u. u\<lparr>u_friends := filter (\<lambda>y. \<not> ((x = a \<and> y = b) \<or> (x = b \<and> y = a)))
                                               (u_friends u)\<rparr>) (findUser d x)
      else findUser d x)"
  by (auto simp: spec_removeFriend_def findUser_updateUser option.map_comp o_def
        removeAll_filter_not_eq
      intro!: option.map_cong arg_cong[where f = "\<lambda>fs. u\<lparr>u_friends := fs\<rparr>" for u] filter_cong)

lemma stores_removeFriend [simp]:
  "db_servers (spec_removeFriend d a b) = db_servers d"
  "db_channels (spec_removeFriend d a b) = db_channels d"
  "db_messages (spec_removeFriend d a b) = db_messages d"
  "db_privateMessages (spec_removeFriend d a b) = db_privateMessages d"
  by (simp_all add: spec_removeFriend_def updateUser_def)

text \<open>
  Claim C7, as stated: \<open>removeFriend\<close> leaves a pair of friends with a conversation in
  state \<open>NONE\<close>. The handler calls \<open>deletePrivateMessage\<close> and \<open>removeFriend\<close> and nothing that
  touches \<open>friendRequests\<close>: when Bob's id is in Ann's \<open>friendRequests\<close> while the two are
  friends, Bob's request answers 204 and leaves that marker, so the pair is \<open>PENDING\<close>.
\<close>

theorem removeFriend_pending_counterexample:
  "areFriends requestedFriendsDb ''a'' ''b''
   \<and> conversationsOf requestedFriendsDb ''a'' ''b'' \<noteq> []
   \<and> removeFriend specServices requestedFriendsDb (sessionOf bob) ''a''
       = (Json 204 NoBody,
          \<lparr>db_users = [ann\<lparr>u_friendRequests := [''b'']\<rparr>, bob], db_servers = [], db_channels = [],
           db_messages = [], db_privateMessages = []\<rparr>)
   \<and> pendingTo \<lparr>db_users = [ann\<lparr>u_friendRequests := [''b'']\<rparr>, bob], db_servers = [], db_channels = [],
           db_messages = [], db_privateMessages = []\<rparr> ''b'' ''a''
   \<and> \<not> isNONE \<lparr>db_users = [ann\<lparr>u_friendRequests := [''b'']\<rparr>, bob], db_servers = [], db_channels = [],
           db_messages = [], db_privateMessages = []\<rparr> ''a'' ''b''"
  by (simp add: removeFriend_def example_defs run_defs)

text \<open>
  Claim C7, amended. For a service layer that follows section 4.2: when A and B are
  friends and have a conversation, a \<open>removeFriend\<close> request of B naming A that answers 204
  leaves both user documents in the store, each without the other in its \<open>friends\<close> and
  otherwise as it was, every other user document as it was, the conversations of the
  pair deleted and every other conversation kept, and the servers, channels, messages
  and pending markers untouched. So the pair is left in state \<open>NONE\<close> exactly when no
  request was pending between the two.
\<close>

theorem removeFriend_unfriends:
  assumes svc: "friendServices svc"
    and sess: "sess = Some su" "sess_id su = B"
    and valid: "validateMongooseId svc bodyFriendId ''friendId'' = Inr A"
    and friends: "areFriends d A B"
    and conversation: "conversationsOf d A B \<noteq> []"
    and run: "removeFriend svc d sess bodyFriendId = (Json 204 NoBody, d')"
  shows "(\<exists>userA userB. findUser d A = Some userA \<and> findUser d B = Some userB
            \<and> findUser d' A = Some (userA\<lparr>u_friends := filter (\<lambda>y. y \<noteq> B) (u_friends userA)\<rparr>)
            \<and> findUser d' B = Some (userB\<lparr>u_friends := filter (\<lambda>y. y \<noteq> A) (u_friends userB)\<rparr>))
       \<and> (\<forall>x. x \<noteq> A \<longrightarrow> x \<noteq> B \<longrightarrow> findUser d' x = findUser d x)
       \<and> \<not> hasFriend d' A B \<and> \<not> hasFriend d' B A
       \<and> db_privateMessages d' = filter (\<lambda>pm. \<not> isPair pm A B) (db_privateMessages d)
       \<and> conversationsOf d' A B = []
       \<and> db_servers d' = db_servers d \<and> db_channels d' = db_channels d
       \<and> db_messages d' = db_messages d
       \<and> (\<forall>x y. pendingTo d' x y = pendingTo d x y)
       \<and> isNONE d' A B = (\<not> isPENDING d A B)"
proof -
  from run sess valid obtain userA userB d1 where
    a: "UserService_getUserById svc d A = Inr userA"
    and b: "UserService_getUserById svc d B = Inr userB"
    and d1: "PrivateMessageService_deletePrivateMessage svc d userA userB = Inr d1"
    and d2: "UserService_removeFriend svc d1 userA userB = Inr d'"
    by (auto simp: removeFriend_def split: sum.splits)
  have stored: "findUser d A = Some userA" "findUser d B = Some userB"
    and ids: "u_id userA = A" "u_id userB = B"
    using friendServices_getUserById[OF svc a] friendServices_getUserById[OF svc b] by simp_all
  have d': "d' = spec_removeFriend (spec_deletePrivateMessage d A B) A B"
    using friendServices_delete[OF svc d1] friendServices_removeFriend[OF svc d2] ids by simp
  have users: "\<exists>userA userB. findUser d A = Some userA \<and> findUser d B = Some userB
            \<and> findUser d' A = Some (userA\<lparr>u_friends := filter (\<lambda>y. y \<noteq> B) (u_friends userA)\<rparr>)
            \<and> findUser d' B = Some (userB\<lparr>u_friends := filter (\<lambda>y. y \<noteq> A) (u_friends userB)\<rparr>)"
  proof -
    have fa: "filter (\<lambda>y. \<not> ((A = A \<and> y = B) \<or> (A = B \<and> y = A))) fs = filter (\<lambda>y. y \<noteq> B) fs"
      and fb: "filter (\<lambda>y. \<not> ((B = A \<and> y = B) \<or> (B = B \<and> y = A))) fs = filter (\<lambda>y. y \<noteq> A) fs"
      for fs :: "ident list"
      by (rule filter_cong; auto)+
    have "findUser d' A = Some (userA\<lparr>u_friends := filter (\<lambda>y. y \<noteq> B) (u_friends userA)\<rparr>)"
      unfolding d' findUser_removeFriend fa using stored by simp
    moreover have "findUser d' B = Some (userB\<lparr>u_friends := filter (\<lambda>y. y \<noteq> A) (u_friends userB)\<rparr>)"
      unfolding d' findUser_removeFriend fb using stored by simp
    ultimately show ?thesis using stored by simp
  qed
  have others: "\<forall>x. x \<noteq> A \<longrightarrow> x \<noteq> B \<longrightarrow> findUser d' x = findUser d x"
    unfolding d' by (simp add: findUser_removeFriend)
  have gone: "\<not> hasFriend d' A B" "\<not> hasFriend d' B A"
    unfolding d' by (simp_all add: hasFriend_removeFriend)
  have pms: "db_privateMessages d' = filter (\<lambda>pm. \<not> isPair pm A B) (db_privateMessages d)"
    unfolding d' by (simp add: spec_deletePrivateMessage_def)
  have conv: "conversationsOf d' A B = []"
    unfolding d' by simp
  have frame: "db_servers d' = db_servers d" "db_channels d' = db_channels d"
    "db_messages d' = db_messages d"
    unfolding d' by (simp_all add: spec_deletePrivateMessage_def)
  have pending: "\<forall>x y. pendingTo d' x y = pendingTo d x y"
    unfolding d' by simp
  have none: "isNONE d' A B = (\<not> isPENDING d A B)"
    using gone pending by (simp add: isNONE_def isPENDING_def areFriends_def)
  show ?thesis
    by (intro conjI) (rule users, rule others, rule gone, rule gone, rule pms, rule conv,
          rule frame, rule frame, rule frame, rule pending, rule none)
qed

theorem removeFriend_unfriends_witness:
  "friendServices specServices
   \<and> validateMongooseId specServices ''a'' ''friendId'' = Inr ''a''
   \<and> areFriends friendsDb ''a'' ''b''
   \<and> conversationsOf friendsDb ''a'' ''b'' \<noteq> []
   \<and> removeFriend specServices friendsDb (sessionOf bob) ''a'' = (Json 204 NoBody, strangersDb)
   \<and> findUser strangersDb ''a'' = Some ann \<and> findUser strangersDb ''b'' = Some bob
   \<and> \<not> hasFriend strangersDb ''a'' ''b'' \<and> \<not> hasFriend strangersDb ''b'' ''a''
   \<and> conversationsOf strangersDb ''a'' ''b'' = [] \<and> isNONE strangersDb ''a'' ''b''"
proof -
  have svc: "friendServices specServices" by (rule friendServices_specServices)
  have sess: "sessionOf bob =
      Some \<lparr>sess_id = ''b'', sess_username = ''bob'', sess_bio = [], sess_theme = ''dark''\<rparr>"
    "sess_id \<lparr>sess_id = ''b'', sess_username = ''bob'', sess_bio = [], sess_theme = ''dark''\<rparr> = ''b''"
    by (simp_all add: sessionOf_def bob_def)
  have valid: "validateMongooseId specServices ''a'' ''friendId'' = Inr ''a''"
    by (simp add: specServices_def)
  have friends: "areFriends friendsDb ''a'' ''b''"
    and conversation: "conversationsOf friendsDb ''a'' ''b'' \<noteq> []"
    and before: "findUser friendsDb ''a'' = Some (ann\<lparr>u_friends := [''b'']\<rparr>)"
      "findUser friendsDb ''b'' = Some (bob\<lparr>u_friends := [''a'']\<rparr>)"
      "\<not> isPENDING friendsDb ''a'' ''b''"
    by (simp_all add: example_defs run_defs)
  note result = removeFriend_unfriends[OF svc sess valid friends conversation run_removeFriend]
  from result before have users: "findUser strangersDb ''a'' = Some ann"
    "findUser strangersDb ''b'' = Some bob"
    by (auto simp: ann_def bob_def)
  from result before have rest: "\<not> hasFriend strangersDb ''a'' ''b''"
    "\<not> hasFriend strangersDb ''b'' ''a''" "conversationsOf strangersDb ''a'' ''b'' = []"
    "isNONE strangersDb ''a'' ''b''"
    by simp_all
  show ?thesis
    using svc valid friends conversation run_removeFriend users rest by simp
qed

section \<open>Deleting a user\<close>

text \<open>What a service layer that follows section 4.3 gives the handler and its callbacks.\<close>

lemma deletionServices_getUserById:
  "deletionServices svc \<Longrightarrow> UserService_getUserById svc d i = Inr u \<Longrightarrow> u_id u = i"
  by (auto simp: deletionServices_def dest: findUser_id)

lemma deletionServices_joined:
  "deletionServices svc \<Longrightarrow> ServerService_getJoinedServers svc d i = Inr ss \<Longrightarrow>
     ss = spec_getJoinedServers d i"
  by (auto simp: deletionServices_def)

lemma deletionServices_deleteServer:
  "deletionServices svc \<Longrightarrow> ServerService_deleteServer svc d s u = Inr d' \<Longrightarrow> d' = spec_deleteServer d s"
  by (auto simp: deletionServices_def)

lemma deletionServices_deleteServerChannels:
  "deletionServices svc \<Longrightarrow> ChannelService_deleteServerChannels svc d s = Inr d' \<Longrightarrow>
     d' = spec_deleteServerChannels d s"
  by (auto simp: deletionServices_def)

lemma deletionServices_removeUser:
  "deletionServices svc \<Longrightarrow> ServerService_removeUser svc d s u = Inr d' \<Longrightarrow>
     d' = spec_removeUser d s (u_id u)"
  by (auto simp: deletionServices_def)

lemma deletionServices_associations:
  "deletionServices svc \<Longrightarrow> UserService_removeUserAssociations svc d a r = Inr d' \<Longrightarrow> keepsServers d d'"
  by (auto simp: deletionServices_def)

lemma deletionServices_privateMessages:
  "deletionServices svc \<Longrightarrow> PrivateMessageService_deleteUserPrivateMessages svc d u = Inr d' \<Longrightarrow>
     keepsServers d d'"
  by (auto simp: deletionServices_def)

lemma deletionServices_deleteUser:
  "deletionServices svc \<Longrightarrow> UserService_deleteUser svc d i = Inr d' \<Longrightarrow> keepsServers d d'"
  by (auto simp: deletionServices_def)

lemma deletionServices_specServices: "deletionServices specServices"
  unfolding deletionServices_def specServices_def
  by (auto simp: keepsServers_def spec_removeUserAssociations_def spec_deletePrivateMessage_def
        spec_deleteUserPrivateMessages_def spec_deleteUserRecord_def updateUser_def
      split: option.splits)

lemma keepsServers_trans: "keepsServers d d1 \<Longrightarrow> keepsServers d1 d2 \<Longrightarrow> keepsServers d d2"
  by (simp add: keepsServers_def)

text \<open>The pending tasks, once they have run without an error.\<close>

lemma settle_append:
  "settle (xs @ ys) d =
     (case settle xs d of (es, d1) \<Rightarrow> (case settle ys d1 of (es', d2) \<Rightarrow> (es @ es', d2)))"
  by (induction xs arbitrary: d) (auto split: prod.splits option.splits)

lemma settle_associations:
  assumes "deletionServices svc"
  shows "settle (map (associationCallback svc removedUser) us) d = ([], d') \<Longrightarrow> keepsServers d d'"
proof (induction us arbitrary: d)
  case Nil
  then show ?case by (simp add: keepsServers_def)
next
  case (Cons u us)
  then show ?case
    by (auto simp: associationCallback_def split: sum.splits prod.splits option.splits
             dest!: deletionServices_associations[OF assms] intro: keepsServers_trans)
qed

lemma serverCallback_ok:
  assumes "deletionServices svc" "serverCallback svc removedUser s d = (None, d1)"
  shows "d1 = spec_serverCallback (u_id removedUser) d s"
  using assms(2)
  by (auto simp: serverCallback_def spec_serverCallback_def split: if_splits sum.splits
           dest!: deletionServices_deleteServer[OF assms(1)]
                  deletionServices_deleteServerChannels[OF assms(1)]
                  deletionServices_removeUser[OF assms(1)])

lemma settle_servers:
  assumes "deletionServices svc"
  shows "settle (map (serverCallback svc removedUser) ss) d = ([], d') \<Longrightarrow>
         d' = foldl (spec_serverCallback (u_id removedUser)) d ss"
proof (induction ss arbitrary: d)
  case Nil
  then show ?case by simp
next
  case (Cons s ss)
  then show ?case
    by (auto split: prod.splits option.splits dest!: serverCallback_ok[OF assms])
qed

text \<open>The server collection after the callbacks.\<close>

lemma findServer_callback:
  "findServer (spec_serverCallback U d s) i =
     (if s_id s = i
      then (if U = s_creatorId s then None
            else map_option (\<lambda>x. x\<lparr>s_users := filter (\<lambda>entry. su_id entry \<noteq> U) (s_users x)\<rparr>)
                   (findServer d i))
      else findServer d i)"
proof -
  have del: "find (\<lambda>x. s_id x = i) (filter (\<lambda>x. s_id x \<noteq> j) xs) =
               (if j = i then None else find (\<lambda>x. s_id x = i) xs)" for j and xs :: "server list"
    by (induction xs) auto
  have upd: "find (\<lambda>x. s_id x = i) (map (\<lambda>x. if s_id x = j then f x else x) xs) =
               (if j = i then map_option f (find (\<lambda>x. s_id x = i) xs) else find (\<lambda>x. s_id x = i) xs)"
    if "\<And>x. s_id (f x) = s_id x" for j f and xs :: "server list"
    using that by (induction xs) auto
  show ?thesis
    by (simp add: findServer_def spec_serverCallback_def spec_deleteServer_def
          spec_deleteServerChannels_def spec_removeUser_def del upd)
qed

lemma findServer_gone:
  "findServer d i = None \<Longrightarrow> findServer (foldl (spec_serverCallback U) d ss) i = None"
  by (induction ss arbitrary: d) (simp_all add: findServer_callback)

lemma findServer_deleted:
  "s \<in> set ss \<Longrightarrow> s_creatorId s = U \<Longrightarrow> findServer (foldl (spec_serverCallback U) d ss) (s_id s) = None"
proof (induction ss arbitrary: d)
  case Nil
  then show ?case by simp
next
  case (Cons x ss)
  show ?case
  proof (cases "s_id x = s_id s \<and> s_creatorId x = U")
    case True
    then have "findServer (spec_serverCallback U d x) (s_id s) = None"
      by (simp add: findServer_callback)
    then show ?thesis by (simp add: findServer_gone)
  next
    case False
    then have "s \<in> set ss" using Cons.prems by auto
    then show ?thesis using Cons.IH Cons.prems by simp
  qed
qed

lemma findServer_kept:
  assumes "\<forall>s' \<in> set ss. s_creatorId s' = U \<longrightarrow> s_id s' \<noteq> i"
  shows "findServer d i = Some x \<Longrightarrow>
         findServer (foldl (spec_serverCallback U) d ss) i =
           Some (if i \<in> s_id ` set ss
                 then x\<lparr>s_users := filter (\<lambda>entry. su_id entry \<noteq> U) (s_users x)\<rparr> else x)"
  using assms
proof (induction ss arbitrary: d x)
  case Nil
  then show ?case by simp
next
  case (Cons s ss)
  show ?case
  proof (cases "s_id s = i")
    case True
    then have "U \<noteq> s_creatorId s" using Cons.prems(2) by auto
    then have "findServer (spec_serverCallback U d s) i =
                 Some (x\<lparr>s_users := filter (\<lambda>entry. su_id entry \<noteq> U) (s_users x)\<rparr>)"
      using True Cons.prems(1) by (simp add: findServer_callback)
    from Cons.IH[OF this] Cons.prems(2) True show ?thesis by simp
  next
    case False
    then have "findServer (spec_serverCallback U d s) i = Some x"
      using Cons.prems(1) by (simp add: findServer_callback)
    from Cons.IH[OF this] Cons.prems(2) False show ?thesis by simp
  qed
qed

text \<open>The channel and message collections after the callbacks: they only shrink.\<close>

lemma channels_callback:
  "set (db_channels (spec_serverCallback U d s)) \<subseteq> set (db_channels d)
   \<and> set (db_messages (spec_serverCallback U d s)) \<subseteq> set (db_messages d)"
  by (simp add: spec_serverCallback_def spec_deleteServer_def spec_deleteServerChannels_def
        spec_removeUser_def)

lemma channels_fold:
  "set (db_channels (foldl (spec_serverCallback U) d ss)) \<subseteq> set (db_channels d)
   \<and> set (db_messages (foldl (spec_serverCallback U) d ss)) \<subseteq> set (db_messages d)"
proof (induction ss arbitrary: d)
  case Nil
  then show ?case by simp
next
  case (Cons s ss)
  have step: "set (db_channels (spec_serverCallback U d s)) \<subseteq> set (db_channels d)"
    "set (db_messages (spec_serverCallback U d s)) \<subseteq> set (db_messages d)"
    using channels_callback[of U d s] by simp_all
  have ih: "set (db_channels (foldl (spec_serverCallback U) (spec_serverCallback U d s) ss))
              \<subseteq> set (db_channels (spec_serverCallback U d s))"
    "set (db_messages (foldl (spec_serverCallback U) (spec_serverCallback U d s) ss))
              \<subseteq> set (db_messages (spec_serverCallback U d s))"
    using Cons.IH[of "spec_serverCallback U d s"] by simp_all
  show ?case
    using order_trans[OF ih(1) step(1)] order_trans[OF ih(2) step(2)] by simp
qed

lemma find_none_subset:
  "set ys \<subseteq> set xs \<Longrightarrow> find P xs = None \<Longrightarrow> find P ys = None"
  by (auto simp: find_None_iff)

lemma findChannel_gone:
  "findChannel d c = None \<Longrightarrow> findChannel (foldl (spec_serverCallback U) d ss) c = None"
  unfolding findChannel_def using channels_fold[of U d ss] find_none_subset by blast

lemma findMessage_gone:
  "findMessage d m = None \<Longrightarrow> findMessage (foldl (spec_serverCallback U) d ss) m = None"
  unfolding findMessage_def using channels_fold[of U d ss] find_none_subset by blast

lemma findChannel_deleted:
  "s \<in> set ss \<Longrightarrow> s_creatorId s = U \<Longrightarrow> c \<in> set (s_channels s) \<Longrightarrow>
     findChannel (foldl (spec_serverCallback U) d ss) c = None"
proof (induction ss arbitrary: d)
  case Nil
  then show ?case by simp
next
  case (Cons x ss)
  show ?case
  proof (cases "x = s")
    case True
    then have "findChannel (spec_serverCallback U d x) c = None"
      using Cons.prems
      by (auto simp: findChannel_def find_None_iff spec_serverCallback_def spec_deleteServer_def
            spec_deleteServerChannels_def)
    then show ?thesis by (simp add: findChannel_gone)
  next
    case False
    then have "s \<in> set ss" using Cons.prems by auto
    then show ?thesis using Cons.IH Cons.prems by simp
  qed
qed

text \<open>A channel document of the store is still there, or its messages are gone; and
  they are gone once the callback of the server that lists the channel has run.\<close>

lemma messages_step:
  assumes "ch \<in> set (db_channels d) \<or> (\<forall>m \<in> set (c_messages ch). findMessage d m = None)"
  shows "(ch \<in> set (db_channels (spec_serverCallback U d s))
          \<or> (\<forall>m \<in> set (c_messages ch). findMessage (spec_serverCallback U d s) m = None))
       \<and> (U = s_creatorId s \<longrightarrow> c_id ch \<in> set (s_channels s) \<longrightarrow>
            (\<forall>m \<in> set (c_messages ch). findMessage (spec_serverCallback U d s) m = None))"
proof (cases "U = s_creatorId s")
  case False
  then show ?thesis
    using assms by (simp add: spec_serverCallback_def spec_removeUser_def findMessage_def)
next
  case True
  have ch: "db_channels (spec_serverCallback U d s)
              = filter (\<lambda>c. c_id c \<notin> set (s_channels s)) (db_channels d)"
    using True
    by (simp add: spec_serverCallback_def spec_deleteServer_def spec_deleteServerChannels_def)
  have ms: "db_messages (spec_serverCallback U d s)
              = filter (\<lambda>m. \<not> list_ex (\<lambda>c. c_id c \<in> set (s_channels s) \<and> m_id m \<in> set (c_messages c))
                                (db_channels d)) (db_messages d)"
    using True
    by (simp add: spec_serverCallback_def spec_deleteServer_def spec_deleteServerChannels_def)
  have stay: "findMessage d m = None \<Longrightarrow> findMessage (spec_serverCallback U d s) m = None" for m
    unfolding findMessage_def ms by (auto simp: find_None_iff)
  show ?thesis
  proof (cases "ch \<in> set (db_channels d)")
    case False
    then show ?thesis using assms stay by auto
  next
    case inDb: True
    show ?thesis
    proof (cases "c_id ch \<in> set (s_channels s)")
      case False
      then show ?thesis using inDb ch by simp
    next
      case doomed: True
      have gone: "\<forall>m \<in> set (c_messages ch). findMessage (spec_serverCallback U d s) m = None"
        unfolding findMessage_def ms using inDb doomed
        by (auto simp: find_None_iff list_ex_iff)
      show ?thesis
        by (intro conjI impI disjI2) (rule gone)+
    qed
  qed
qed

lemma messages_fold:
  "ch \<in> set (db_channels d) \<or> (\<forall>m \<in> set (c_messages ch). findMessage d m = None) \<Longrightarrow>
   s \<in> set ss \<Longrightarrow> s_creatorId s = U \<Longrightarrow> c_id ch \<in> set (s_channels s) \<Longrightarrow>
   \<forall>m \<in> set (c_messages ch). findMessage (foldl (spec_serverCallback U) d ss) m = None"
proof (induction ss arbitrary: d)
  case Nil
  then show ?case by simp
next
  case (Cons x ss)
  note step = messages_step[OF Cons.prems(1), of U x]
  show ?case
  proof (cases "x = s")
    case True
    then have "\<forall>m \<in> set (c_messages ch). findMessage (spec_serverCallback U d x) m = None"
      using step Cons.prems by simp
    then show ?thesis by (simp add: findMessage_gone)
  next
    case False
    then have "s \<in> set ss" using Cons.prems by auto
    from Cons.IH[OF conjunct1[OF step] this Cons.prems(3,4)] show ?thesis by simp
  qed
qed

text \<open>The handler when it answers 204.\<close>

lemma deleteUser_success:
  assumes "du_response (deleteUser svc d (Some su)) = Json 204 NoBody"
  shows "\<exists>ru us ss d1 d2.
           UserService_getUserById svc d (sess_id su) = Inr ru
         \<and> UserService_getAssociatedUsers svc d (u_id ru) = Inr us
         \<and> ServerService_getJoinedServers svc d (u_id ru) = Inr ss
         \<and> PrivateMessageService_deleteUserPrivateMessages svc d ru = Inr d1
         \<and> UserService_deleteUser svc d1 (u_id ru) = Inr d2
         \<and> du_db (deleteUser svc d (Some su)) = d2
         \<and> du_session (deleteUser svc d (Some su)) = None
         \<and> du_pending (deleteUser svc d (Some su))
             = map (associationCallback svc ru) us @ map (serverCallback svc ru) ss"
  using assms by (auto simp: deleteUser_def Let_def split: sum.splits)

lemma find_distinct_server:
  "distinct (map s_id xs) \<Longrightarrow> s \<in> set xs \<Longrightarrow> find (\<lambda>x. s_id x = s_id s) xs = Some s"
  by (induction xs) (auto simp: image_iff)

lemma same_id_distinct:
  "distinct (map s_id xs) \<Longrightarrow> s \<in> set xs \<Longrightarrow> s' \<in> set xs \<Longrightarrow> s_id s' = s_id s \<Longrightarrow> s' = s"
  by (meson distinct_map inj_onD)

lemmas deletion_defs = spec_getAssociatedUsers_def spec_removeUserAssociations_def
  spec_getJoinedServers_def spec_deleteServer_def spec_deleteServerChannels_def spec_removeUser_def
  spec_deleteUserPrivateMessages_def spec_deleteUserRecord_def associationCallback_def
  serverCallback_def findServer_def findChannel_def findMessage_def

lemma run_deleteUser:
  "du_response (deleteUser specServices communityDb (sessionOf ann)) = Json 204 NoBody"
  by (simp add: deleteUser_def example_defs run_defs deletion_defs Let_def)

lemma run_settle:
  "settle (du_pending (deleteUser specServices communityDb (sessionOf ann)))
          (du_db (deleteUser specServices communityDb (sessionOf ann))) = ([], withoutAnnDb)"
  by (simp add: deleteUser_def example_defs run_defs deletion_defs Let_def)

text \<open>
  The branch of the callback is the one section 4.3 asks for. For a service layer that
  follows section 4.3 and a store with one document per server id: when \<open>deleteUser\<close>
  answers 204 and every callback it started has then run without an error, then for
  every server the deleted user belonged to: if the user was its creator, the server,
  every channel it lists and every message of these channels are gone; otherwise the
  server is still there and has lost exactly the entries of that user in \<open>users\<close>. The
  handler itself ensures neither that the callbacks have run when it answers nor that
  they run without an error.
\<close>

lemma settled_servers:
  assumes svc: "deletionServices svc"
    and sess: "sess = Some su" "sess_id su = U"
    and ids: "distinct (map s_id (db_servers d))"
    and response: "du_response (deleteUser svc d sess) = Json 204 NoBody"
    and settled: "settle (du_pending (deleteUser svc d sess)) (du_db (deleteUser svc d sess)) = ([], d')"
    and member: "server \<in> set (db_servers d)" "U \<in> su_id ` set (s_users server)"
  shows "(s_creatorId server = U \<longrightarrow>
            findServer d' (s_id server) = None
          \<and> (\<forall>c \<in> set (s_channels server). findChannel d' c = None)
          \<and> (\<forall>ch \<in> set (db_channels d). c_id ch \<in> set (s_channels server) \<longrightarrow>
                (\<forall>m \<in> set (c_messages ch). findMessage d' m = None)))
       \<and> (s_creatorId server \<noteq> U \<longrightarrow>
            findServer d' (s_id server)
              = Some (server\<lparr>s_users := filter (\<lambda>entry. su_id entry \<noteq> U) (s_users server)\<rparr>))"
proof -
  from deleteUser_success[OF response[unfolded sess(1)]] obtain ru us ss d1 d2 where
    ru: "UserService_getUserById svc d (sess_id su) = Inr ru"
    and ss: "ServerService_getJoinedServers svc d (u_id ru) = Inr ss"
    and d1: "PrivateMessageService_deleteUserPrivateMessages svc d ru = Inr d1"
    and d2: "UserService_deleteUser svc d1 (u_id ru) = Inr d2"
    and out: "du_db (deleteUser svc d (Some su)) = d2"
      "du_pending (deleteUser svc d (Some su))
         = map (associationCallback svc ru) us @ map (serverCallback svc ru) ss"
    by blast
  have U: "u_id ru = U"
    using deletionServices_getUserById[OF svc ru] sess(2) by simp
  have joined: "ss = spec_getJoinedServers d U"
    using deletionServices_joined[OF svc ss] U by simp
  have k2: "keepsServers d d2"
    using keepsServers_trans[OF deletionServices_privateMessages[OF svc d1]
            deletionServices_deleteUser[OF svc d2]] .
  from settled obtain d3 where
    t1: "settle (map (associationCallback svc ru) us) d2 = ([], d3)"
    and t2: "settle (map (serverCallback svc ru) ss) d3 = ([], d')"
    unfolding sess(1) out by (auto simp: settle_append split: prod.splits)
  have k3: "keepsServers d d3"
    using keepsServers_trans[OF k2 settle_associations[OF svc t1]] .
  have final: "d' = foldl (spec_serverCallback U) d3 ss"
    using settle_servers[OF svc t2] U by simp
  have inSs: "server \<in> set ss"
    using member by (simp add: joined spec_getJoinedServers_def)
  have stored: "findServer d3 (s_id server) = Some server"
    using find_distinct_server[OF ids member(1)] k3 by (simp add: findServer_def keepsServers_def)
  have channels: "db_channels d3 = db_channels d"
    using k3 by (simp add: keepsServers_def)
  show ?thesis
  proof (intro conjI impI ballI)
    assume "s_creatorId server = U"
    then show "findServer d' (s_id server) = None"
      unfolding final using inSs by (rule findServer_deleted[rotated])
  next
    fix c assume "s_creatorId server = U" "c \<in> set (s_channels server)"
    then show "findChannel d' c = None"
      unfolding final using inSs by (simp add: findChannel_deleted)
  next
    fix ch m
    assume "s_creatorId server = U" "ch \<in> set (db_channels d)"
      "c_id ch \<in> set (s_channels server)" "m \<in> set (c_messages ch)"
    then show "findMessage d' m = None"
      unfolding final using messages_fold[of ch d3 server ss U] inSs channels by simp
  next
    assume notCreator: "s_creatorId server \<noteq> U"
    have "\<forall>s' \<in> set ss. s_creatorId s' = U \<longrightarrow> s_id s' \<noteq> s_id server"
    proof (intro ballI impI notI)
      fix s' assume s': "s' \<in> set ss" "s_creatorId s' = U" "s_id s' = s_id server"
      then have "s' \<in> set (db_servers d)" by (simp add: joined spec_getJoinedServers_def)
      from same_id_distinct[OF ids member(1) this s'(3)] s'(2) notCreator show False by simp
    qed
    from findServer_kept[OF this stored] inSs
    show "findServer d' (s_id server)
              = Some (server\<lparr>s_users := filter (\<lambda>entry. su_id entry \<noteq> U) (s_users server)\<rparr>)"
      unfolding final by simp
  qed
qed

lemma settled_servers_community:
  "deletionServices specServices
   \<and> distinct (map s_id (db_servers communityDb))
   \<and> du_response (deleteUser specServices communityDb (sessionOf ann)) = Json 204 NoBody
   \<and> settle (du_pending (deleteUser specServices communityDb (sessionOf ann)))
            (du_db (deleteUser specServices communityDb (sessionOf ann))) = ([], withoutAnnDb)
   \<and> findServer withoutAnnDb ''s'' = None
   \<and> findChannel withoutAnnDb ''c1'' = None \<and> findChannel withoutAnnDb ''c2'' = None
   \<and> findMessage withoutAnnDb ''m1'' = None
   \<and> findServer withoutAnnDb ''t''
        = Some \<lparr>s_id = ''t'', s_name = ''T'', s_creatorId = ''b'',
                s_users = [\<lparr>su_id = ''b'', su_permissionLevel = 9\<rparr>], s_channels = [''c3'']\<rparr>"
proof -
  have svc: "deletionServices specServices" by (rule deletionServices_specServices)
  have sess: "sessionOf ann =
      Some \<lparr>sess_id = ''a'', sess_username = ''ann'', sess_bio = [], sess_theme = ''light''\<rparr>"
    "sess_id \<lparr>sess_id = ''a'', sess_username = ''ann'', sess_bio = [], sess_theme = ''light''\<rparr> = ''a''"
    by (simp_all add: sessionOf_def ann_def)
  have ids: "distinct (map s_id (db_servers communityDb))"
    by (simp add: communityDb_def)
  have s: "\<lparr>s_id = ''s'', s_name = ''S'', s_creatorId = ''a'',
            s_users = [\<lparr>su_id = ''a'', su_permissionLevel = 9\<rparr>], s_channels = [''c1'', ''c2'']\<rparr>
           \<in> set (db_servers communityDb)"
    and t: "\<lparr>s_id = ''t'', s_name = ''T'', s_creatorId = ''b'',
            s_users = [\<lparr>su_id = ''b'', su_permissionLevel = 9\<rparr>, \<lparr>su_id = ''a'', su_permissionLevel = 3\<rparr>],
            s_channels = [''c3'']\<rparr> \<in> set (db_servers communityDb)"
    by (simp_all add: communityDb_def)
  have c1: "\<lparr>c_id = ''c1'', c_serverId = ''s'', c_name = ''general'', c_description = [],
          c_permissionLevel = 0, c_messages = [''m1'']\<rparr> \<in> set (db_channels communityDb)"
    by (simp add: communityDb_def)
  note owned = settled_servers[OF svc sess ids run_deleteUser run_settle s]
  note joined = settled_servers[OF svc sess ids run_deleteUser run_settle t]
  from owned have "findServer withoutAnnDb ''s'' = None"
    "findChannel withoutAnnDb ''c1'' = None" "findChannel withoutAnnDb ''c2'' = None"
    by simp_all
  moreover from owned c1 have "findMessage withoutAnnDb ''m1'' = None"
    by fastforce
  moreover from joined have "findServer withoutAnnDb ''t''
        = Some \<lparr>s_id = ''t'', s_name = ''T'', s_creatorId = ''b'',
                s_users = [\<lparr>su_id = ''b'', su_permissionLevel = 9\<rparr>], s_channels = [''c3'']\<rparr>"
    by simp
  ultimately show ?thesis
    using svc ids run_deleteUser run_settle by simp
qed

lemma deletionServices_failingChannels: "deletionServices failingChannels"
  unfolding deletionServices_def failingChannels_def specServices_def
  by (auto simp: keepsServers_def spec_removeUserAssociations_def spec_deletePrivateMessage_def
        spec_deleteUserPrivateMessages_def spec_deleteUserRecord_def updateUser_def
      split: option.splits)

text \<open>
  Claim C6, on the code: Ann, the creator of the server \<open>s\<close> with the channels \<open>c1\<close> and
  \<open>c2\<close> and a member of Bob's server \<open>t\<close>, deletes her account, with a service layer whose
  \<open>deleteServerChannels\<close> throws. The handler answers 204 with her record deleted while
  \<open>s\<close>, \<open>c1\<close> and her entry in \<open>t\<close> are still in the store. When the callbacks have all
  ended, \<open>s\<close> is gone but \<open>c1\<close>, \<open>c2\<close> and the message of \<open>c1\<close> are still stored: the error
  of the callback reached nobody.
\<close>

theorem deleteUser_leaves_channels:
  "du_response (deleteUser failingChannels communityDb (sessionOf ann)) = Json 204 NoBody
   \<and> findUser (du_db (deleteUser failingChannels communityDb (sessionOf ann))) ''a'' = None
   \<and> findServer (du_db (deleteUser failingChannels communityDb (sessionOf ann))) ''s'' \<noteq> None
   \<and> findChannel (du_db (deleteUser failingChannels communityDb (sessionOf ann))) ''c1'' \<noteq> None
   \<and> findServer (du_db (deleteUser failingChannels communityDb (sessionOf ann))) ''t''
       = Some \<lparr>s_id = ''t'', s_name = ''T'', s_creatorId = ''b'',
               s_users = [\<lparr>su_id = ''b'', su_permissionLevel = 9\<rparr>,
                          \<lparr>su_id = ''a'', su_permissionLevel = 3\<rparr>],
               s_channels = [''c3'']\<rparr>
   \<and> fst (settle (du_pending (deleteUser failingChannels communityDb (sessionOf ann)))
                 (du_db (deleteUser failingChannels communityDb (sessionOf ann))))
       = [BaseError 500 ''Unable to delete channels.'']
   \<and> findServer (snd (settle (du_pending (deleteUser failingChannels communityDb (sessionOf ann)))
                 (du_db (deleteUser failingChannels communityDb (sessionOf ann))))) ''s'' = None
   \<and> findChannel (snd (settle (du_pending (deleteUser failingChannels communityDb (sessionOf ann)))
                 (du_db (deleteUser failingChannels communityDb (sessionOf ann))))) ''c1'' \<noteq> None
   \<and> findChannel (snd (settle (du_pending (deleteUser failingChannels communityDb (sessionOf ann)))
                 (du_db (deleteUser failingChannels communityDb (sessionOf ann))))) ''c2'' \<noteq> None
   \<and> findMessage (snd (settle (du_pending (deleteUser failingChannels communityDb (sessionOf ann)))
                 (du_db (deleteUser failingChannels communityDb (sessionOf ann))))) ''m1'' \<noteq> None"
  by (simp add: deleteUser_def failingChannels_def example_defs run_defs deletion_defs Let_def)

text \<open>
  Claim C3, on the code: Ann, who has a friend and two servers, deletes her account. The
  handler awaits none of the three callbacks of steps 1 and 2: it answers 204 with the
  user record deleted and the session destroyed while they are still pending. When
  their writes land after the response, Bob still lists Ann as a friend and her server
  and its channel are still in the store at the time the record is deleted. Steps 1 and
  2 are started before the record is deleted, not completed before it; step 3 is
  awaited, and the session is destroyed after the deletion.
\<close>

theorem deleteUser_not_awaited:
  "du_response (deleteUser specServices communityDb (sessionOf ann)) = Json 204 NoBody
   \<and> du_session (deleteUser specServices communityDb (sessionOf ann)) = None
   \<and> findUser (du_db (deleteUser specServices communityDb (sessionOf ann))) ''a'' = None
   \<and> conversationsOf (du_db (deleteUser specServices communityDb (sessionOf ann))) ''a'' ''b'' = []
   \<and> length (du_pending (deleteUser specServices communityDb (sessionOf ann))) = 3
   \<and> hasFriend (du_db (deleteUser specServices communityDb (sessionOf ann))) ''b'' ''a''
   \<and> findServer (du_db (deleteUser specServices communityDb (sessionOf ann))) ''s'' \<noteq> None
   \<and> findChannel (du_db (deleteUser specServices communityDb (sessionOf ann))) ''c1'' \<noteq> None"
  by (simp add: deleteUser_def example_defs run_defs deletion_defs Let_def)

text \<open>
  Claim C9, on the code: the same request with a service layer whose
  \<open>removeUserAssociations\<close> throws. The handler still answers 204 and deletes the user
  record; the error is met only when the pending callback runs, where no handler
  catches it, and Bob keeps Ann in his friends.
\<close>

theorem deleteUser_swallows_failure:
  "du_response (deleteUser failingAssociations communityDb (sessionOf ann)) = Json 204 NoBody
   \<and> findUser (du_db (deleteUser failingAssociations communityDb (sessionOf ann))) ''a'' = None
   \<and> fst (settle (du_pending (deleteUser failingAssociations communityDb (sessionOf ann)))
                 (du_db (deleteUser failingAssociations communityDb (sessionOf ann))))
       = [BaseError 500 ''Unable to remove associations.'']
   \<and> hasFriend (snd (settle (du_pending (deleteUser failingAssociations communityDb (sessionOf ann)))
                 (du_db (deleteUser failingAssociations communityDb (sessionOf ann))))) ''b'' ''a''"
  by (simp add: deleteUser_def failingAssociations_def example_defs run_defs deletion_defs Let_def)

section \<open>The channel page of a denied caller\<close>

text \<open>
  Claim C10, as stated: a denied caller always gets the fixed 403 page, whatever the
  channel's messages. The messages and their authors are loaded before the access test.
  Once Ann has deleted her account, her message is still listed in the channel \<open>c3\<close> of
  Bob's server but its author is not found: an anonymous caller of \<open>c3\<close> gets the 404
  page of that failure. With the same store except for the author of that message, the
  same caller gets the 403 page.
\<close>

theorem denied_page_counterexample:
  "settle (du_pending (deleteUser specServices communityDb (sessionOf ann)))
          (du_db (deleteUser specServices communityDb (sessionOf ann))) = ([], withoutAnnDb)
   \<and> renderChannelMainPage specServices withoutAnnDb None ''c3''
       = Render 404 ''error'' (ErrorPayload 404 ''User not found.'')
   \<and> renderChannelMainPage specServices
         (withoutAnnDb\<lparr>db_messages :=
            [\<lparr>m_id = ''m3'', m_userId = ''b'', m_message = ''welcome''\<rparr>,
             \<lparr>m_id = ''m4'', m_userId = ''b'', m_message = ''thanks''\<rparr>]\<rparr>) None ''c3''
       = Render 403 ''error'' (ErrorPayload 403 ''Insufficient permissions.'')"
proof (intro conjI)
  show "settle (du_pending (deleteUser specServices communityDb (sessionOf ann)))
          (du_db (deleteUser specServices communityDb (sessionOf ann))) = ([], withoutAnnDb)"
    by (rule run_settle)
  show "renderChannelMainPage specServices withoutAnnDb None ''c3''
       = Render 404 ''error'' (ErrorPayload 404 ''User not found.'')"
    by (simp add: renderChannelMainPage_def specServices_def findChannel_def findServer_def
          findMessage_def findUser_def loadMessage_def catchRender_def example_defs)
  show "renderChannelMainPage specServices
         (withoutAnnDb\<lparr>db_messages :=
            [\<lparr>m_id = ''m3'', m_userId = ''b'', m_message = ''welcome''\<rparr>,
             \<lparr>m_id = ''m4'', m_userId = ''b'', m_message = ''thanks''\<rparr>]\<rparr>) None ''c3''
       = Render 403 ''error'' (ErrorPayload 403 ''Insufficient permissions.'')"
    by (simp add: renderChannelMainPage_def specServices_def findChannel_def findServer_def
          findMessage_def findUser_def loadMessage_def channelAccess_def
          insufficientPermissions_def example_defs)
qed

text \<open>
  Claim C10, amended: for a denied caller (anonymous, not a member, or below the channel's
  level), whenever the channel, its server and every listed message and its author are
  found, the response is the fixed 403 page, whatever the messages, the name and the
  description are.
\<close>

theorem denied_page_fixed:
  assumes "validateMongooseId svc channelIdParam ''channelId'' = Inr channelId"
    and "ChannelService_getChannelById svc d channelId = Inr channel"
    and "ServerService_getServerById svc d (c_serverId channel) = Inr server"
    and "promiseAll (loadMessage svc d) (c_messages channel) = Inr messages"
    and "\<not> spec_canAccess (s_users server) (sessionIdentity sess) (c_permissionLevel channel)"
  shows "renderChannelMainPage svc d sess channelIdParam = insufficientPermissions"
  using assms by (simp add: renderChannelMainPage_def channelAccess_spec)

theorem denied_page_fixed_witness:
  "renderChannelMainPage specServices
     \<lparr>db_users = [\<lparr>u_id = ''u1'', u_username = ''ann'', u_bio = [], u_theme = ''light'',
                u_friends = [], u_friendRequests = [], u_servers = [''s1'']\<rparr>],
     db_servers = [\<lparr>s_id = ''s1'', s_name = ''S'', s_creatorId = ''u1'',
                   s_users = [\<lparr>su_id = ''u1'', su_permissionLevel = 9\<rparr>], s_channels = [''c1'']\<rparr>],
     db_channels = [\<lparr>c_id = ''c1'', c_serverId = ''s1'', c_name = ''general'', c_description = [],
                    c_permissionLevel = 4, c_messages = [''m1'']\<rparr>],
     db_messages = [\<lparr>m_id = ''m1'', m_userId = ''u1'', m_message = ''hi''\<rparr>],
     db_privateMessages = []\<rparr> None ''c1'' = insufficientPermissions"
  by (rule denied_page_fixed[where channelId = "''c1''"
        and channel = "\<lparr>c_id = ''c1'', c_serverId = ''s1'', c_name = ''general'', c_description = [],
                    c_permissionLevel = 4, c_messages = [''m1'']\<rparr>"
        and server = "\<lparr>s_id = ''s1'', s_name = ''S'', s_creatorId = ''u1'',
                   s_users = [\<lparr>su_id = ''u1'', su_permissionLevel = 9\<rparr>], s_channels = [''c1'']\<rparr>"
        and messages = "[\<lparr>mv_id = ''m1'', mv_userId = ''u1'', mv_username = ''ann'', mv_message = ''hi''\<rparr>]"])
     (simp_all add: specServices_def findChannel_def findServer_def findMessage_def findUser_def
        loadMessage_def spec_canAccess_def sessionIdentity_def)

end
